theory Spec2Isabelle
  imports Complex_Main "HOL-Library.Sublist" "HOL-Library.AList" "HOL-Library.Multiset"
    "HOL-Library.Product_Lexorder"
begin

section \<open>Conventions of the embedding\<close>

text \<open>
  The development embeds the decision pipeline of the nutrition engine: the need analyzer
  (\<^verbatim>\<open>bio_analyzer.py\<close>), the resource scorer (\<^verbatim>\<open>resource_locator.py\<close>) and the plan
  builder (\<^verbatim>\<open>shopping_planner.py\<close>), over the data classes of \<^verbatim>\<open>user_context.py\<close>.

  \<^item> A Python dataclass is a record with the fields of the class, in the order of the class.
    Several classes share field names (\<open>name\<close>, \<open>priority\<close>, \<open>reason\<close>, \<open>user_id\<close>);
    the selectors are then written qualified, \<open>FoodItem.name\<close>, \<open>NutrientNeed.priority\<close>.
  \<^item> A Python \<open>float\<close> (prices, budgets, distances, lab values) is an exact rational number.
    Comparisons against the thresholds of the code are the same on both; sums and differences
    are exact here, while IEEE doubles round them.
  \<^item> A Python \<open>str\<close> is a \<open>string\<close>; \<open>lower\<close>, \<open>upper\<close> and \<open>title\<close> act on the ASCII
    letters and leave every other character as it is.
  \<^item> The conversion of a number to text inside an f-string is not modelled: the functions
    that build such texts take the conversion as an argument (\<open>fmt\<close> for \<open>{x}\<close>,
    \<open>fmt2\<close> for \<open>{x:.2f}\<close>).
  \<^item> A dictionary that is iterated is an association list in insertion order;
    \<open>AList.update\<close> overwrites a key in place and appends a new key at the end, as a Python
    \<open>dict\<close> does.
  \<^item> \<open>sorted\<close> and \<open>list.sort\<close> are stable; so is \<open>sort_key\<close>.
\<close>

section \<open>Strings\<close>

definition lower_char :: "char \<Rightarrow> char" where
  "lower_char c =
     (case map_of (zip ''ABCDEFGHIJKLMNOPQRSTUVWXYZ'' ''abcdefghijklmnopqrstuvwxyz'') c of
        Some d \<Rightarrow> d | None \<Rightarrow> c)"

definition upper_char :: "char \<Rightarrow> char" where
  "upper_char c =
     (case map_of (zip ''abcdefghijklmnopqrstuvwxyz'' ''ABCDEFGHIJKLMNOPQRSTUVWXYZ'') c of
        Some d \<Rightarrow> d | None \<Rightarrow> c)"

definition is_letter :: "char \<Rightarrow> bool" where
  "is_letter c = (c \<in> set ''ABCDEFGHIJKLMNOPQRSTUVWXYZabcdefghijklmnopqrstuvwxyz'')"

definition str_lower :: "string \<Rightarrow> string" where
  "str_lower s = map lower_char s"

definition str_upper :: "string \<Rightarrow> string" where
  "str_upper s = map upper_char s"

text \<open>\<open>str_contains a s\<close> is Python's \<open>a in s\<close> on strings: \<open>a\<close> occurs in \<open>s\<close> as a
  contiguous piece.\<close>

definition str_contains :: "string \<Rightarrow> string \<Rightarrow> bool" where
  "str_contains a s = sublist a s"

text \<open>\<open>str.title()\<close>: a letter that follows a letter is lowered, any other letter is raised.\<close>

fun title_from :: "bool \<Rightarrow> string \<Rightarrow> string" where
  "title_from prev [] = []"
| "title_from prev (c # cs) =
     (if is_letter c then (if prev then lower_char c else upper_char c) # title_from True cs
      else c # title_from False cs)"

definition str_title :: "string \<Rightarrow> string" where
  "str_title s = title_from False s"

text \<open>\<open>list(set(xs))\<close> keeps one copy of every element, in an order that depends on the
  hashes of the run. \<open>remdups\<close> is one such list; only its set of elements is meaningful.\<close>

definition list_of_set :: "'a list \<Rightarrow> 'a list" where
  "list_of_set xs = remdups xs"

section \<open>The user context (\<^verbatim>\<open>user_context.py\<close>)\<close>

record Financials =
  weekly_budget :: rat
  snap_status :: bool
  wic_status :: bool
  annual_income :: "rat option"

definition has_assistance :: "Financials \<Rightarrow> bool" where
  "has_assistance f = (snap_status f \<or> wic_status f)"

definition budget_tier :: "Financials \<Rightarrow> string" where
  "budget_tier f =
     (if weekly_budget f < 50 then ''very_low''
      else if weekly_budget f < 100 then ''low''
      else if weekly_budget f < 200 then ''moderate''
      else ''comfortable'')"

record Logistics =
  zip_code :: string
  has_vehicle :: bool
  has_public_transit :: bool
  grocery_trips_per_week :: int
  max_travel_distance_miles :: rat

record MedicalHistory =
  family_history :: "string list"
  previous_conditions :: "string list"
  current_symptoms :: "string list"
  known_allergies :: "string list"
  medications :: "string list"

record LabResults =
  mthfr_variant :: "string option"
  comt_variant :: "string option"
  vitamin_b12_level :: "rat option"
  vitamin_d_level :: "rat option"
  iron_level :: "rat option"
  ferritin_level :: "rat option"
  crp_level :: "rat option"
  homocysteine_level :: "rat option"
  glucose_fasting :: "rat option"
  omega3_index :: "rat option"

record UserContext =
  user_id :: string
  name :: string
  financials :: Financials
  logistics :: Logistics
  medical :: MedicalHistory
  lab_results :: "LabResults option"

text \<open>\<open>LabResults()\<close>: every field has the default \<open>None\<close>.\<close>

definition LabResults_default :: LabResults where
  "LabResults_default =
     \<lparr>mthfr_variant = None, comt_variant = None, vitamin_b12_level = None,
      vitamin_d_level = None, iron_level = None, ferritin_level = None, crp_level = None,
      homocysteine_level = None, glucose_fasting = None, omega3_index = None\<rparr>"

definition create_sample_user :: UserContext where
  "create_sample_user =
     \<lparr>UserContext.user_id = ''sample_user_001'',
      name = ''Sample User'',
      financials = \<lparr>weekly_budget = 60.0, snap_status = True, wic_status = False,
                     annual_income = Some 28000\<rparr>,
      logistics = \<lparr>zip_code = ''30312'', has_vehicle = False, has_public_transit = True,
                    grocery_trips_per_week = 2, max_travel_distance_miles = 5.0\<rparr>,
      medical = \<lparr>family_history = [''diabetes'', ''hypertension''],
                  previous_conditions = [''anemia''],
                  current_symptoms = [''fatigue'', ''brain_fog''],
                  known_allergies = [''shellfish''],
                  medications = []\<rparr>,
      lab_results = Some (LabResults_default
        \<lparr>mthfr_variant := Some ''C677T'', vitamin_b12_level := Some 280,
         vitamin_d_level := Some 18, iron_level := Some 50, crp_level := Some 3.5,
         homocysteine_level := Some 14, glucose_fasting := Some 105\<rparr>)\<rparr>"

section \<open>The need analyzer (\<^verbatim>\<open>bio_analyzer.py\<close>)\<close>

record NutrientNeed =
  nutrient :: string
  priority :: int
  reason :: string
  related_markers :: "string list"
  food_sources :: "string list"

record NutrientPriorityList =
  user_id :: string
  needs :: "NutrientNeed list"
  warnings :: "string list"

text \<open>\<open>get_top_priorities\<close>: the first \<open>n\<close> needs of the list sorted by priority.\<close>

definition get_top_priorities :: "NutrientPriorityList \<Rightarrow> nat \<Rightarrow> NutrientNeed list" where
  "get_top_priorities pl n = take n (sort_key NutrientNeed.priority (needs pl))"

subsection \<open>Reference tables\<close>

text \<open>A row of \<open>LAB_REFERENCE_RANGES\<close>: the numeric thresholds by key, and the unit.\<close>

definition LAB_REFERENCE_RANGES :: "(string \<times> (string \<times> rat) list \<times> string) list" where
  "LAB_REFERENCE_RANGES =
    [(''vitamin_b12'', [(''low'', 300), (''optimal_low'', 500), (''optimal_high'', 900)], ''pg/mL''),
     (''vitamin_d'', [(''low'', 20), (''optimal_low'', 40), (''optimal_high'', 60)], ''ng/mL''),
     (''iron'', [(''low'', 60), (''optimal_low'', 80), (''optimal_high'', 170)], ''mcg/dL''),
     (''ferritin'', [(''low'', 30), (''optimal_low'', 50), (''optimal_high'', 150)], ''ng/mL''),
     (''crp'', [(''optimal_high'', 1.0), (''elevated'', 3.0), (''high'', 10.0)], ''mg/L''),
     (''homocysteine'', [(''optimal_high'', 7), (''elevated'', 12), (''high'', 15)], ''umol/L''),
     (''glucose_fasting'', [(''optimal_high'', 100), (''prediabetic'', 125), (''diabetic'', 126)],
        ''mg/dL''),
     (''omega3_index'', [(''low'', 4), (''optimal_low'', 8), (''optimal_high'', 12)], ''%'')]"

text \<open>\<open>LAB_REFERENCE_RANGES[marker][key]\<close> and \<open>LAB_REFERENCE_RANGES[marker]['unit']\<close>. The
  code reads the table at constant keys that are all present, so the \<open>KeyError\<close> of a
  missing key cannot happen; the defaults below are never reached.\<close>

definition ref_value :: "string \<Rightarrow> string \<Rightarrow> rat" where
  "ref_value marker key =
     (case map_of LAB_REFERENCE_RANGES marker of
        Some (row, u) \<Rightarrow> (case map_of row key of Some v \<Rightarrow> v | None \<Rightarrow> 0)
      | None \<Rightarrow> 0)"

definition ref_unit :: "string \<Rightarrow> string" where
  "ref_unit marker =
     (case map_of LAB_REFERENCE_RANGES marker of Some (row, u) \<Rightarrow> u | None \<Rightarrow> [])"

definition NUTRIENT_FOOD_SOURCES :: "(string \<times> string list) list" where
  "NUTRIENT_FOOD_SOURCES =
    [(''Vitamin B12'',
        [''eggs'', ''fortified cereals'', ''nutritional yeast'', ''sardines'',
         ''beef liver'', ''clams'', ''fortified plant milk'']),
     (''Methylfolate'',
        [''spinach'', ''lentils'', ''asparagus'', ''broccoli'', ''avocado'',
         ''black-eyed peas'', ''brussels sprouts'', ''romaine lettuce'']),
     (''Vitamin D'',
        [''fortified milk'', ''egg yolks'', ''salmon'', ''sardines'',
         ''fortified orange juice'', ''mushrooms (UV-exposed)'']),
     (''Iron'',
        [''spinach'', ''lentils'', ''chickpeas'', ''beef'', ''fortified cereals'',
         ''pumpkin seeds'', ''quinoa'', ''dark chocolate'']),
     (''Omega-3 Fatty Acids'',
        [''salmon'', ''sardines'', ''walnuts'', ''flaxseed'', ''chia seeds'',
         ''mackerel'', ''hemp seeds'']),
     (''Anti-inflammatory Foods'',
        [''turmeric'', ''ginger'', ''berries'', ''leafy greens'', ''fatty fish'',
         ''olive oil'', ''tomatoes'', ''nuts'', ''green tea'']),
     (''Magnesium'',
        [''spinach'', ''pumpkin seeds'', ''black beans'', ''almonds'',
         ''avocado'', ''dark chocolate'', ''quinoa'']),
     (''Fiber'',
        [''oats'', ''beans'', ''lentils'', ''berries'', ''broccoli'',
         ''apples'', ''whole grains'', ''chia seeds'']),
     (''Antioxidants'',
        [''berries'', ''dark leafy greens'', ''pecans'', ''artichokes'',
         ''beets'', ''red cabbage'', ''dark chocolate'']),
     (''Chromium'',
        [''broccoli'', ''grape juice'', ''whole grains'', ''beef'',
         ''green beans'', ''potatoes''])]"

definition sources_for :: "string \<Rightarrow> string list" where
  "sources_for n = (case map_of NUTRIENT_FOOD_SOURCES n of Some l \<Rightarrow> l | None \<Rightarrow> [])"

subsection \<open>The rule groups\<close>

text \<open>\<open>if lab_results.mthfr_variant:\<close> is false for \<open>None\<close> and for the empty string.\<close>

definition analyze_methylation_markers :: "LabResults \<Rightarrow> NutrientNeed list" where
  "analyze_methylation_markers lab =
     (case mthfr_variant lab of
        None \<Rightarrow> []
      | Some v \<Rightarrow>
          if v = [] then []
          else
            (let variant = str_upper v in
             if variant \<in> set [''C677T'', ''COMPOUND'', ''HOMOZYGOUS''] then
               [\<lparr>nutrient = ''Methylfolate'', priority = 1,
                 reason = ''MTHFR '' @ variant @
                   '' variant detected - reduced ability to convert folic acid to active methylfolate'',
                 related_markers = [''MTHFR'', ''homocysteine''],
                 food_sources = sources_for ''Methylfolate''\<rparr>,
                \<lparr>nutrient = ''Vitamin B12'', priority = 1,
                 reason = ''MTHFR '' @ variant @
                   '' requires adequate B12 for proper methylation cycle function'',
                 related_markers = [''MTHFR'', ''methylation''],
                 food_sources = sources_for ''Vitamin B12''\<rparr>]
             else if variant = ''A1298C'' then
               [\<lparr>nutrient = ''Methylfolate'', priority = 2,
                 reason = ''MTHFR A1298C variant - moderately reduced folate metabolism'',
                 related_markers = [''MTHFR'', ''BH4''],
                 food_sources = sources_for ''Methylfolate''\<rparr>]
             else []))
     @
     (case comt_variant lab of
        None \<Rightarrow> []
      | Some c \<Rightarrow>
          if c \<noteq> [] \<and> str_lower c = ''slow'' then
            [\<lparr>nutrient = ''Magnesium'', priority = 2,
              reason = ''Slow COMT variant - magnesium supports stress response and catecholamine metabolism'',
              related_markers = [''COMT'', ''catecholamines''],
              food_sources = sources_for ''Magnesium''\<rparr>]
          else [])"

definition b12_needs :: "(rat \<Rightarrow> string) \<Rightarrow> LabResults \<Rightarrow> NutrientNeed list" where
  "b12_needs fmt lab =
     (case vitamin_b12_level lab of
        None \<Rightarrow> []
      | Some level \<Rightarrow>
          if level < ref_value ''vitamin_b12'' ''low'' then
            [\<lparr>nutrient = ''Vitamin B12'', priority = 1,
              reason = ''B12 level ('' @ fmt level @ '' '' @ ref_unit ''vitamin_b12'' @
                '') is deficient - urgent supplementation recommended'',
              related_markers = [''B12'', ''MCV'', ''homocysteine''],
              food_sources = sources_for ''Vitamin B12''\<rparr>]
          else if level < ref_value ''vitamin_b12'' ''optimal_low'' then
            [\<lparr>nutrient = ''Vitamin B12'', priority = 2,
              reason = ''B12 level ('' @ fmt level @ '' '' @ ref_unit ''vitamin_b12'' @
                '') is suboptimal - dietary increase recommended'',
              related_markers = [''B12''],
              food_sources = sources_for ''Vitamin B12''\<rparr>]
          else [])"

definition vitamin_d_needs :: "(rat \<Rightarrow> string) \<Rightarrow> LabResults \<Rightarrow> NutrientNeed list" where
  "vitamin_d_needs fmt lab =
     (case vitamin_d_level lab of
        None \<Rightarrow> []
      | Some level \<Rightarrow>
          if level < ref_value ''vitamin_d'' ''low'' then
            [\<lparr>nutrient = ''Vitamin D'', priority = 1,
              reason = ''Vitamin D level ('' @ fmt level @ '' '' @ ref_unit ''vitamin_d'' @
                '') is deficient - significant health impact'',
              related_markers = [''25-OH Vitamin D'', ''calcium'', ''PTH''],
              food_sources = sources_for ''Vitamin D''\<rparr>]
          else if level < ref_value ''vitamin_d'' ''optimal_low'' then
            [\<lparr>nutrient = ''Vitamin D'', priority = 2,
              reason = ''Vitamin D level ('' @ fmt level @ '' '' @ ref_unit ''vitamin_d'' @
                '') is insufficient'',
              related_markers = [''25-OH Vitamin D''],
              food_sources = sources_for ''Vitamin D''\<rparr>]
          else [])"

definition iron_needs :: "(rat \<Rightarrow> string) \<Rightarrow> LabResults \<Rightarrow> NutrientNeed list" where
  "iron_needs fmt lab =
     (case iron_level lab of
        None \<Rightarrow> []
      | Some level \<Rightarrow>
          if level < ref_value ''iron'' ''low'' then
            [\<lparr>nutrient = ''Iron'', priority = 1,
              reason = ''Iron level ('' @ fmt level @ '' '' @ ref_unit ''iron'' @
                '') is low - may cause fatigue and anemia'',
              related_markers = [''serum iron'', ''ferritin'', ''TIBC''],
              food_sources = sources_for ''Iron''\<rparr>]
          else [])"

text \<open>\<open>analyze_vitamin_levels\<close> runs its three blocks (B12, vitamin D, iron) in this order,
  each appending to the same list.\<close>

definition analyze_vitamin_levels :: "(rat \<Rightarrow> string) \<Rightarrow> LabResults \<Rightarrow> NutrientNeed list" where
  "analyze_vitamin_levels fmt lab = b12_needs fmt lab @ vitamin_d_needs fmt lab @ iron_needs fmt lab"

definition crp_needs :: "(rat \<Rightarrow> string) \<Rightarrow> LabResults \<Rightarrow> NutrientNeed list" where
  "crp_needs fmt lab =
     (case crp_level lab of
        None \<Rightarrow> []
      | Some level \<Rightarrow>
          if level > ref_value ''crp'' ''elevated'' then
            (let p = (if level > ref_value ''crp'' ''high'' then 1 else 2) in
             [\<lparr>nutrient = ''Anti-inflammatory Foods'', priority = p,
               reason = ''CRP level ('' @ fmt level @ '' '' @ ref_unit ''crp'' @
                 '') indicates systemic inflammation'',
               related_markers = [''CRP'', ''ESR'', ''inflammation''],
               food_sources = sources_for ''Anti-inflammatory Foods''\<rparr>,
              \<lparr>nutrient = ''Omega-3 Fatty Acids'', priority = p,
               reason = ''Omega-3s help reduce inflammation markers like CRP ('' @ fmt level @
                 '' '' @ ref_unit ''crp'' @ '')'',
               related_markers = [''CRP'', ''omega-3 index''],
               food_sources = sources_for ''Omega-3 Fatty Acids''\<rparr>])
          else [])"

definition homocysteine_needs :: "(rat \<Rightarrow> string) \<Rightarrow> LabResults \<Rightarrow> NutrientNeed list" where
  "homocysteine_needs fmt lab =
     (case homocysteine_level lab of
        None \<Rightarrow> []
      | Some level \<Rightarrow>
          if level > ref_value ''homocysteine'' ''elevated'' then
            (let p = (if level > ref_value ''homocysteine'' ''high'' then 1 else 2) in
             [\<lparr>nutrient = ''Methylfolate'', priority = p,
               reason = ''Homocysteine ('' @ fmt level @ '' '' @ ref_unit ''homocysteine'' @
                 '') is elevated - B vitamins help lower it'',
               related_markers = [''homocysteine'', ''cardiovascular risk''],
               food_sources = sources_for ''Methylfolate''\<rparr>])
          else [])"

definition analyze_inflammation_markers ::
  "(rat \<Rightarrow> string) \<Rightarrow> LabResults \<Rightarrow> NutrientNeed list" where
  "analyze_inflammation_markers fmt lab = crp_needs fmt lab @ homocysteine_needs fmt lab"

definition analyze_metabolic_markers ::
  "(rat \<Rightarrow> string) \<Rightarrow> LabResults \<Rightarrow> NutrientNeed list" where
  "analyze_metabolic_markers fmt lab =
     (case glucose_fasting lab of
        None \<Rightarrow> []
      | Some level \<Rightarrow>
          if level > ref_value ''glucose_fasting'' ''optimal_high'' then
            (let p = (if level < ref_value ''glucose_fasting'' ''prediabetic'' then 2 else 1) in
             [\<lparr>nutrient = ''Fiber'', priority = p,
               reason = ''Fasting glucose ('' @ fmt level @ '' '' @ ref_unit ''glucose_fasting'' @
                 '') elevated - fiber helps regulate blood sugar'',
               related_markers = [''glucose'', ''HbA1c'', ''insulin''],
               food_sources = sources_for ''Fiber''\<rparr>,
              \<lparr>nutrient = ''Chromium'', priority = p + 1,
               reason = ''Chromium supports glucose metabolism with elevated fasting glucose ('' @
                 fmt level @ '')'',
               related_markers = [''glucose'', ''insulin sensitivity''],
               food_sources = sources_for ''Chromium''\<rparr>])
          else [])"

subsection \<open>Symptoms and family history\<close>

definition symptom_nutrient_map :: "(string \<times> NutrientNeed list) list" where
  "symptom_nutrient_map =
    [(''fatigue'',
       [\<lparr>nutrient = ''Iron'', priority = 3,
         reason = ''Fatigue reported - iron deficiency is a common cause'',
         related_markers = [''symptoms: fatigue''],
         food_sources = sources_for ''Iron''\<rparr>,
        \<lparr>nutrient = ''Vitamin B12'', priority = 3,
         reason = ''Fatigue reported - B12 supports energy metabolism'',
         related_markers = [''symptoms: fatigue''],
         food_sources = sources_for ''Vitamin B12''\<rparr>]),
     (''brain_fog'',
       [\<lparr>nutrient = ''Omega-3 Fatty Acids'', priority = 3,
         reason = ''Brain fog reported - omega-3s support cognitive function'',
         related_markers = [''symptoms: brain fog''],
         food_sources = sources_for ''Omega-3 Fatty Acids''\<rparr>]),
     (''joint_pain'',
       [\<lparr>nutrient = ''Anti-inflammatory Foods'', priority = 3,
         reason = ''Joint pain reported - anti-inflammatory foods may help'',
         related_markers = [''symptoms: joint pain''],
         food_sources = sources_for ''Anti-inflammatory Foods''\<rparr>]),
     (''anxiety'',
       [\<lparr>nutrient = ''Magnesium'', priority = 3,
         reason = ''Anxiety reported - magnesium supports nervous system calm'',
         related_markers = [''symptoms: anxiety''],
         food_sources = sources_for ''Magnesium''\<rparr>]),
     (''weak_immunity'',
       [\<lparr>nutrient = ''Vitamin D'', priority = 3,
         reason = ''Immune concerns - Vitamin D is crucial for immune function'',
         related_markers = [''symptoms: immunity''],
         food_sources = sources_for ''Vitamin D''\<rparr>])]"

text \<open>For every symptom, in order, every key of the table that occurs in the lowered
  symptom contributes its needs.\<close>

definition analyze_symptoms :: "MedicalHistory \<Rightarrow> NutrientNeed list" where
  "analyze_symptoms med =
     (let symptoms = map str_lower (current_symptoms med) in
      concat (map (\<lambda>symptom.
        concat (map (\<lambda>(key, nutrient_needs).
          if str_contains key symptom then nutrient_needs else []) symptom_nutrient_map))
        symptoms))"

definition analyze_family_history :: "MedicalHistory \<Rightarrow> NutrientNeed list" where
  "analyze_family_history med =
     (let history = map str_lower (family_history med) in
      (if list_ex (\<lambda>h. str_contains ''diabetes'' h) history then
         [\<lparr>nutrient = ''Fiber'', priority = 4,
           reason = ''Family history of diabetes - fiber helps maintain healthy blood sugar'',
           related_markers = [''family history: diabetes''],
           food_sources = sources_for ''Fiber''\<rparr>,
          \<lparr>nutrient = ''Chromium'', priority = 4,
           reason = ''Family history of diabetes - chromium supports glucose metabolism'',
           related_markers = [''family history: diabetes''],
           food_sources = sources_for ''Chromium''\<rparr>]
       else [])
      @
      (if list_ex (\<lambda>h. str_contains ''heart'' h \<or> str_contains ''cardiovascular'' h) history then
         [\<lparr>nutrient = ''Omega-3 Fatty Acids'', priority = 4,
           reason = ''Family history of heart disease - omega-3s support cardiovascular health'',
           related_markers = [''family history: cardiovascular''],
           food_sources = sources_for ''Omega-3 Fatty Acids''\<rparr>]
       else [])
      @
      (if list_ex (\<lambda>h. str_contains ''cancer'' h) history then
         [\<lparr>nutrient = ''Antioxidants'', priority = 4,
           reason = ''Family history considerations - antioxidants support cellular health'',
           related_markers = [''family history: cancer''],
           food_sources = sources_for ''Antioxidants''\<rparr>]
       else []))"

subsection \<open>Consolidation\<close>

text \<open>
  One pass of the loop of \<open>consolidate_nutrient_needs\<close> over \<open>nutrient_map\<close>. A need whose
  name is already a key either replaces the entry (strictly smaller priority number: the new
  reason is put before the old one, the markers are merged, the food sources are the new
  need's) or only adds its markers to the entry. The entry keeps its place in the dictionary.

  The assignment \<open>existing.related_markers = ...\<close> changes the object held by the
  dictionary; the model overwrites the entry. The same object can occur twice in
  \<open>all_needs\<close> (a symptom table entry matched by two symptoms); merging an entry with
  itself adds no marker, so the entries have the same marker sets in both readings.
\<close>

definition consolidate_step ::
  "(string \<times> NutrientNeed) list \<Rightarrow> NutrientNeed \<Rightarrow> (string \<times> NutrientNeed) list" where
  "consolidate_step nutrient_map need =
     (case map_of nutrient_map (nutrient need) of
        Some existing \<Rightarrow>
          if NutrientNeed.priority need < NutrientNeed.priority existing then
            AList.update (nutrient need)
              \<lparr>nutrient = nutrient need,
               priority = NutrientNeed.priority need,
               reason = NutrientNeed.reason need @ ''; Also: '' @ NutrientNeed.reason existing,
               related_markers = list_of_set (related_markers existing @ related_markers need),
               food_sources = food_sources need\<rparr>
              nutrient_map
          else
            AList.update (nutrient need)
              (existing\<lparr>related_markers :=
                  list_of_set (related_markers existing @ related_markers need)\<rparr>)
              nutrient_map
      | None \<Rightarrow> AList.update (nutrient need) need nutrient_map)"

definition consolidate_nutrient_needs :: "NutrientNeed list \<Rightarrow> NutrientNeed list" where
  "consolidate_nutrient_needs all_needs = map snd (foldl consolidate_step [] all_needs)"

subsection \<open>The analysis\<close>

text \<open>A \<open>LabResults\<close> object is always true in \<open>if user_context.lab_results:\<close>; only
  \<open>None\<close> takes the other branch.\<close>

definition lab_needs :: "(rat \<Rightarrow> string) \<Rightarrow> UserContext \<Rightarrow> NutrientNeed list" where
  "lab_needs fmt uc =
     (case lab_results uc of
        Some lab \<Rightarrow>
          analyze_methylation_markers lab @ analyze_vitamin_levels fmt lab @
          analyze_inflammation_markers fmt lab @ analyze_metabolic_markers fmt lab
      | None \<Rightarrow> [])"

definition lab_warnings :: "UserContext \<Rightarrow> string list" where
  "lab_warnings uc =
     (case lab_results uc of
        Some lab \<Rightarrow> []
      | None \<Rightarrow>
          [''No lab results provided - recommendations based on symptoms and history only''])"

text \<open>\<open>all_needs\<close> before the allergy filter: lab rules, then symptoms, then family history.\<close>

definition collect_needs :: "(rat \<Rightarrow> string) \<Rightarrow> UserContext \<Rightarrow> NutrientNeed list" where
  "collect_needs fmt uc =
     lab_needs fmt uc @ analyze_symptoms (medical uc) @ analyze_family_history (medical uc)"

definition filter_sources :: "string list \<Rightarrow> string list \<Rightarrow> string list" where
  "filter_sources allergies sources =
     filter (\<lambda>source. \<not> list_ex (\<lambda>allergy. str_contains allergy (str_lower source)) allergies)
       sources"

text \<open>The allergy loop rewrites \<open>need.food_sources\<close> of every need and appends a warning
  for every need left without a source. Filtering twice gives the same list, so a need
  object that occurs twice in \<open>all_needs\<close> is filtered and warned about as two separate
  needs would be.\<close>

definition apply_allergies :: "string list \<Rightarrow> NutrientNeed \<Rightarrow> NutrientNeed" where
  "apply_allergies allergies need =
     need\<lparr>food_sources := filter_sources allergies (food_sources need)\<rparr>"

definition allergy_warnings :: "string list \<Rightarrow> NutrientNeed list \<Rightarrow> string list" where
  "allergy_warnings allergies all_needs =
     concat (map (\<lambda>need.
       if filter_sources allergies (food_sources need) = [] then
         [''Limited food sources for '' @ nutrient need @ '' due to allergies'']
       else []) all_needs)"

definition filtered_needs :: "(rat \<Rightarrow> string) \<Rightarrow> UserContext \<Rightarrow> NutrientNeed list" where
  "filtered_needs fmt uc =
     map (apply_allergies (map str_lower (known_allergies (medical uc)))) (collect_needs fmt uc)"

definition analyze_lab_data :: "(rat \<Rightarrow> string) \<Rightarrow> UserContext \<Rightarrow> NutrientPriorityList" where
  "analyze_lab_data fmt uc =
     \<lparr>NutrientPriorityList.user_id = UserContext.user_id uc,
      needs = sort_key NutrientNeed.priority (consolidate_nutrient_needs (filtered_needs fmt uc)),
      warnings =
        lab_warnings uc @
        allergy_warnings (map str_lower (known_allergies (medical uc))) (collect_needs fmt uc)\<rparr>"

section \<open>The resource scorer (\<^verbatim>\<open>resource_locator.py\<close>)\<close>

datatype StoreType = GROCERY | FOOD_PANTRY | FARMERS_MARKET | DISCOUNT | SPECIALTY

datatype InventoryLevel = HIGH | MEDIUM | LOW

record Store =
  name :: string
  store_type :: StoreType
  distance_miles :: rat
  snap_accepted :: bool
  wic_accepted :: bool
  inventory_level :: InventoryLevel
  price_tier :: int
  specialty_items :: "string list"
  hours :: string

record TravelFeasibility =
  store :: Store
  is_accessible :: bool
  travel_method :: string
  estimated_time_minutes :: int
  accessibility_score :: rat
  "notes" :: "string list"

record ResourceMap =
  user_zip :: string
  accessible_stores :: "TravelFeasibility list"
  food_pantries :: "TravelFeasibility list"
  snap_stores :: "TravelFeasibility list"
  all_stores :: "Store list"

definition SYNTHETIC_STORES_DATABASE :: "(string \<times> Store list) list" where
  "SYNTHETIC_STORES_DATABASE =
    [(''default'',
       [\<lparr>Store.name = ''SaveMart Grocery'', store_type = GROCERY, distance_miles = 1.2,
         snap_accepted = True, wic_accepted = True, inventory_level = InventoryLevel.HIGH,
         price_tier = 3, specialty_items = [''organic produce'', ''gluten-free''],
         hours = ''7am-10pm''\<rparr>,
        \<lparr>Store.name = ''Community Food Pantry'', store_type = FOOD_PANTRY, distance_miles = 0.8,
         snap_accepted = False, wic_accepted = False, inventory_level = InventoryLevel.MEDIUM,
         price_tier = 1, specialty_items = [''canned goods'', ''bread'', ''produce''],
         hours = ''Mon/Wed/Fri 10am-2pm''\<rparr>,
        \<lparr>Store.name = ''Budget Foods'', store_type = DISCOUNT, distance_miles = 2.5,
         snap_accepted = True, wic_accepted = False, inventory_level = InventoryLevel.HIGH,
         price_tier = 1, specialty_items = [''bulk items'', ''frozen foods''],
         hours = ''8am-9pm''\<rparr>,
        \<lparr>Store.name = ''Fresh Farmers Market'', store_type = FARMERS_MARKET, distance_miles = 1.8,
         snap_accepted = True, wic_accepted = True, inventory_level = InventoryLevel.MEDIUM,
         price_tier = 2, specialty_items = [''local produce'', ''eggs'', ''honey''],
         hours = ''Sat 8am-1pm''\<rparr>,
        \<lparr>Store.name = ''Whole Health Foods'', store_type = SPECIALTY, distance_miles = 3.2,
         snap_accepted = False, wic_accepted = False, inventory_level = InventoryLevel.HIGH,
         price_tier = 5, specialty_items = [''supplements'', ''organic'', ''specialty diet''],
         hours = ''9am-8pm''\<rparr>,
        \<lparr>Store.name = ''Dollar General'', store_type = DISCOUNT, distance_miles = 0.5,
         snap_accepted = True, wic_accepted = False, inventory_level = InventoryLevel.LOW,
         price_tier = 2, specialty_items = [''canned goods'', ''snacks'', ''basic staples''],
         hours = ''8am-10pm''\<rparr>,
        \<lparr>Store.name = ''St. Mary'' @ [CHR 0x27] @ ''s Food Bank'', store_type = FOOD_PANTRY,
         distance_miles = 2.1,
         snap_accepted = False, wic_accepted = False, inventory_level = InventoryLevel.HIGH,
         price_tier = 1, specialty_items = [''fresh produce'', ''meat'', ''dairy''],
         hours = ''Tue/Thu 9am-3pm''\<rparr>,
        \<lparr>Store.name = ''ALDI'', store_type = DISCOUNT, distance_miles = 4.0,
         snap_accepted = True, wic_accepted = True, inventory_level = InventoryLevel.HIGH,
         price_tier = 1,
         specialty_items = [''produce'', ''dairy'', ''frozen'', ''specialty imports''],
         hours = ''9am-8pm''\<rparr>,
        \<lparr>Store.name = ''Target'', store_type = GROCERY, distance_miles = 5.5,
         snap_accepted = True, wic_accepted = True, inventory_level = InventoryLevel.HIGH,
         price_tier = 3, specialty_items = [''organic'', ''fresh produce'', ''supplements''],
         hours = ''8am-10pm''\<rparr>,
        \<lparr>Store.name = ''Neighborhood Co-op'', store_type = SPECIALTY, distance_miles = 1.5,
         snap_accepted = True, wic_accepted = False, inventory_level = InventoryLevel.MEDIUM,
         price_tier = 4, specialty_items = [''local'', ''organic'', ''bulk bins'', ''specialty''],
         hours = ''10am-7pm''\<rparr>]),
     (''303'',
       [\<lparr>Store.name = ''King Soopers'', store_type = GROCERY, distance_miles = 1.0,
         snap_accepted = True, wic_accepted = True, inventory_level = InventoryLevel.HIGH,
         price_tier = 3, specialty_items = [''organic'', ''deli'', ''pharmacy''],
         hours = ''6am-11pm''\<rparr>]),
     (''300'',
       [\<lparr>Store.name = ''Publix'', store_type = GROCERY, distance_miles = 1.3,
         snap_accepted = True, wic_accepted = True, inventory_level = InventoryLevel.HIGH,
         price_tier = 3, specialty_items = [''deli'', ''bakery'', ''organic''],
         hours = ''7am-10pm''\<rparr>])]"

text \<open>The default stores, then the stores listed under the first three characters of the
  zip code, when that prefix is a key of the table.\<close>

definition get_stores_for_zip :: "string \<Rightarrow> Store list" where
  "get_stores_for_zip zc =
     (let zip_prefix = (if length zc \<ge> 3 then take 3 zc else zc);
          stores = (case map_of SYNTHETIC_STORES_DATABASE ''default'' of
                      Some l \<Rightarrow> l | None \<Rightarrow> [])
      in case map_of SYNTHETIC_STORES_DATABASE zip_prefix of
           Some l \<Rightarrow> stores @ l
         | None \<Rightarrow> stores)"

text \<open>\<open>int(x)\<close> on a float drops the fraction: it rounds towards zero.\<close>

definition py_int :: "rat \<Rightarrow> int" where
  "py_int x = (if 0 \<le> x then \<lfloor>x\<rfloor> else \<lceil>x\<rceil>)"

text \<open>\<open>round(x, 2)\<close>, on the exact value: the nearest multiple of one hundredth, a tie
  going to the even one. On doubles the products and sums that produce \<open>x\<close> are rounded
  first, so a score can differ from this one in its last digit; the score only orders the
  accessible stores.\<close>

definition py_round2 :: "rat \<Rightarrow> rat" where
  "py_round2 x =
     (let y = x * 100; f = \<lfloor>y\<rfloor>; d = y - of_int f in
      of_int (if d < 1 / 2 then f else if d > 1 / 2 then f + 1
              else if even f then f else f + 1) / 100)"

definition calculate_travel_time :: "rat \<Rightarrow> string \<Rightarrow> int" where
  "calculate_travel_time distance method =
     (let speeds = [(''walk'', 3.0), (''transit'', 12.0), (''drive'', 25.0)];
          speed = (case map_of speeds method of Some s \<Rightarrow> s | None \<Rightarrow> 3.0);
          base_time = (distance / speed) * 60;
          base_time = (if method = ''transit'' then base_time + 10
                       else if method = ''walk'' then base_time + 5
                       else base_time)
      in py_int base_time)"

definition inventory_score :: "InventoryLevel \<Rightarrow> rat" where
  "inventory_score i =
     (case i of InventoryLevel.HIGH \<Rightarrow> 1.0 | InventoryLevel.MEDIUM \<Rightarrow> 0.7
      | InventoryLevel.LOW \<Rightarrow> 0.4)"

text \<open>
  \<open>calculate_travel_feasibility\<close>, in the order of the code: the preferred travel method
  and its practical radius; reachability within the profile's travel distance; the
  fallback to walking (up to 2 miles) or transit (up to 8 miles, when available); the
  travel time of the method finally chosen; the score; the notes; and the long-trip rule,
  which keeps a store more than 45 minutes away only for two or more trips a week.
\<close>

definition calculate_travel_feasibility :: "Store \<Rightarrow> Logistics \<Rightarrow> TravelFeasibility" where
  "calculate_travel_feasibility s l =
     (let (method0, max_practical_distance) =
            (if has_vehicle l then (''drive'', 15.0)
             else if has_public_transit l then (''transit'', 8.0)
             else (''walk'', 2.0));
          accessible0 = (distance_miles s \<le> max_travel_distance_miles l);
          (method, accessible1, notes1) =
            (if \<not> accessible0 then
               (if distance_miles s \<le> 2.0 then (''walk'', True, [''Walking distance''])
                else if distance_miles s \<le> 8.0 \<and> has_public_transit l then
                  (''transit'', True, [''Accessible via public transit''])
                else (method0, accessible0, []))
             else (method0, accessible0, []));
          travel_time = calculate_travel_time (distance_miles s) method;
          distance_score = max 0 (1 - distance_miles s / max_practical_distance);
          time_score = max 0 (1 - of_int travel_time / 60);
          score = distance_score * 0.4 + time_score * 0.3 +
                  inventory_score (inventory_level s) * 0.3;
          notes2 = notes1 @
            (if store_type s = FOOD_PANTRY then [''FREE - Food pantry''] else []) @
            (if distance_miles s \<le> 1.0 then [''Very close''] else []) @
            (if travel_time > 45 then [''Long travel time''] else []);
          accessible2 = (if travel_time > 45 then accessible1 \<and> grocery_trips_per_week l \<ge> 2
                         else accessible1)
      in \<lparr>store = s, is_accessible = accessible2, travel_method = method,
          estimated_time_minutes = travel_time, accessibility_score = py_round2 score,
          notes = notes2\<rparr>)"

text \<open>The accessible stores are sorted by falling score, then by rising distance; the
  pantries and the SNAP stores are filtered from that list, and the SNAP stores are
  sorted again by price tier and distance when the user has any assistance.\<close>

definition resource_locator :: "UserContext \<Rightarrow> ResourceMap" where
  "resource_locator uc =
     (let stores = get_stores_for_zip (zip_code (logistics uc));
          all_feasibility = map (\<lambda>s. calculate_travel_feasibility s (logistics uc)) stores;
          accessible =
            sort_key (\<lambda>x. (- accessibility_score x, distance_miles (store x)))
              (filter is_accessible all_feasibility);
          pantries = filter (\<lambda>f. store_type (store f) = FOOD_PANTRY) accessible;
          snap = filter (\<lambda>f. snap_accepted (store f)) accessible;
          snap = (if has_assistance (financials uc) then
                    sort_key (\<lambda>x. (price_tier (store x), distance_miles (store x))) snap
                  else snap)
      in \<lparr>user_zip = zip_code (logistics uc), accessible_stores = accessible,
          food_pantries = pantries, snap_stores = snap, all_stores = stores\<rparr>)"

section \<open>The plan builder (\<^verbatim>\<open>shopping_planner.py\<close>)\<close>

datatype ShoppingPriority = CRITICAL | HIGH | MODERATE | OPTIONAL

text \<open>The \<open>value\<close> of the enumeration member, the key of the final sort.\<close>

fun priority_value :: "ShoppingPriority \<Rightarrow> int" where
  "priority_value CRITICAL = 1"
| "priority_value ShoppingPriority.HIGH = 2"
| "priority_value MODERATE = 3"
| "priority_value OPTIONAL = 4"

record FoodItem =
  name :: string
  category :: string
  price_estimate :: rat
  snap_eligible :: bool
  wic_eligible :: bool
  nutrients_provided :: "string list"
  serving_size :: string
  shelf_life_days :: int

record ShoppingListItem =
  food :: FoodItem
  quantity :: int
  priority :: ShoppingPriority
  reason :: string
  suggested_store :: "string option"
  estimated_cost :: rat
  nutrients_addressed :: "string list"

record ShoppingList =
  user_id :: string
  items :: "ShoppingListItem list"
  total_estimated_cost :: rat
  budget_remaining :: rat
  pantry_items :: "ShoppingListItem list"
  store_visits :: "(string \<times> ShoppingListItem list) list"
  reasoning_log :: "string list"

text \<open>The positional constructor \<open>FoodItem(name, category, price, snap, wic, nutrients,
  serving, shelf_life)\<close>.\<close>

definition mk_food ::
  "string \<Rightarrow> string \<Rightarrow> rat \<Rightarrow> bool \<Rightarrow> bool \<Rightarrow> string list \<Rightarrow> string \<Rightarrow> int \<Rightarrow> FoodItem" where
  "mk_food n c p s w ns sv d =
     \<lparr>FoodItem.name = n, category = c, price_estimate = p, snap_eligible = s, wic_eligible = w,
      nutrients_provided = ns, serving_size = sv, shelf_life_days = d\<rparr>"

definition FOOD_DATABASE :: "(string \<times> FoodItem) list" where
  "FOOD_DATABASE =
    [(''spinach'', mk_food ''Spinach (fresh bunch)'' ''produce'' 2.50 True True
        [''Iron'', ''Methylfolate'', ''Magnesium'', ''Anti-inflammatory Foods''] ''1 bunch'' 5),
     (''spinach_frozen'', mk_food ''Spinach (frozen bag)'' ''frozen'' 1.50 True False
        [''Iron'', ''Methylfolate'', ''Magnesium''] ''16 oz bag'' 180),
     (''broccoli'', mk_food ''Broccoli'' ''produce'' 1.75 True True
        [''Fiber'', ''Chromium'', ''Anti-inflammatory Foods''] ''1 head'' 7),
     (''kale'', mk_food ''Kale'' ''produce'' 2.00 True False
        [''Iron'', ''Antioxidants'', ''Anti-inflammatory Foods''] ''1 bunch'' 5),
     (''lentils_dry'', mk_food ''Lentils (dry)'' ''dry goods'' 1.50 True False
        [''Iron'', ''Fiber'', ''Methylfolate''] ''1 lb bag'' 365),
     (''black_beans_canned'', mk_food ''Black Beans (canned)'' ''canned'' 0.89 True False
        [''Fiber'', ''Iron'', ''Magnesium''] ''15 oz can'' 730),
     (''chickpeas_canned'', mk_food ''Chickpeas (canned)'' ''canned'' 1.00 True False
        [''Iron'', ''Fiber''] ''15 oz can'' 730),
     (''eggs'', mk_food ''Eggs (dozen)'' ''dairy'' 3.50 True True
        [''Vitamin B12'', ''Vitamin D''] ''12 eggs'' 21),
     (''sardines_canned'', mk_food ''Sardines (canned)'' ''canned'' 2.00 True False
        [''Vitamin B12'', ''Vitamin D'', ''Omega-3 Fatty Acids''] ''4 oz can'' 1095),
     (''salmon_canned'', mk_food ''Salmon (canned)'' ''canned'' 3.50 True False
        [''Vitamin B12'', ''Vitamin D'', ''Omega-3 Fatty Acids''] ''6 oz can'' 1095),
     (''chicken_thighs'', mk_food ''Chicken Thighs'' ''meat'' 4.00 True False
        [''Vitamin B12'', ''Iron''] ''1 lb'' 2),
     (''beef_liver'', mk_food ''Beef Liver'' ''meat'' 3.00 True False
        [''Vitamin B12'', ''Iron'', ''Vitamin D''] ''1 lb'' 2),
     (''oats'', mk_food ''Oats (rolled)'' ''dry goods'' 2.50 True True
        [''Fiber'', ''Magnesium''] ''42 oz container'' 365),
     (''fortified_cereal'', mk_food ''Fortified Cereal'' ''dry goods'' 3.00 True True
        [''Vitamin B12'', ''Iron'', ''Methylfolate''] ''12 oz box'' 180),
     (''quinoa'', mk_food ''Quinoa'' ''dry goods'' 5.00 True False
        [''Iron'', ''Magnesium'', ''Fiber''] ''16 oz bag'' 365),
     (''walnuts'', mk_food ''Walnuts'' ''nuts'' 6.00 True False
        [''Omega-3 Fatty Acids'', ''Magnesium''] ''8 oz bag'' 180),
     (''flaxseed'', mk_food ''Ground Flaxseed'' ''nuts'' 4.00 True False
        [''Omega-3 Fatty Acids'', ''Fiber''] ''16 oz bag'' 180),
     (''chia_seeds'', mk_food ''Chia Seeds'' ''nuts'' 5.50 True False
        [''Omega-3 Fatty Acids'', ''Fiber''] ''12 oz bag'' 365),
     (''pumpkin_seeds'', mk_food ''Pumpkin Seeds'' ''nuts'' 4.50 True False
        [''Iron'', ''Magnesium''] ''8 oz bag'' 180),
     (''turmeric'', mk_food ''Turmeric (ground)'' ''spices'' 3.50 True False
        [''Anti-inflammatory Foods''] ''2 oz jar'' 730),
     (''ginger_root'', mk_food ''Ginger Root'' ''produce'' 1.00 True False
        [''Anti-inflammatory Foods''] ''1 piece'' 21),
     (''berries_frozen'', mk_food ''Mixed Berries (frozen)'' ''frozen'' 3.50 True True
        [''Antioxidants'', ''Anti-inflammatory Foods'', ''Fiber''] ''16 oz bag'' 365),
     (''olive_oil'', mk_food ''Olive Oil (extra virgin)'' ''oils'' 7.00 True False
        [''Anti-inflammatory Foods'', ''Omega-3 Fatty Acids''] ''16 oz bottle'' 730),
     (''fortified_milk'', mk_food ''Fortified Milk (or plant milk)'' ''dairy'' 3.00 True True
        [''Vitamin D'', ''Vitamin B12''] ''half gallon'' 10),
     (''yogurt'', mk_food ''Yogurt'' ''dairy'' 4.00 True True
        [''Vitamin B12'', ''Vitamin D''] ''32 oz container'' 14),
     (''brown_rice'', mk_food ''Brown Rice'' ''dry goods'' 2.00 True False
        [''Fiber'', ''Magnesium''] ''2 lb bag'' 365),
     (''peanut_butter'', mk_food ''Peanut Butter'' ''dry goods'' 3.00 True True
        [''Magnesium''] ''16 oz jar'' 180),
     (''bananas'', mk_food ''Bananas'' ''produce'' 0.50 True True
        [''Magnesium'', ''Fiber''] ''per lb'' 5)]"

definition BUDGET_ALTERNATIVES :: "(string \<times> string) list" where
  "BUDGET_ALTERNATIVES =
    [(''salmon_canned'', ''sardines_canned''),
     (''quinoa'', ''brown_rice''),
     (''walnuts'', ''flaxseed''),
     (''chia_seeds'', ''flaxseed''),
     (''kale'', ''spinach_frozen''),
     (''spinach'', ''spinach_frozen''),
     (''chicken_thighs'', ''eggs'')]"

definition get_foods_for_nutrient :: "string \<Rightarrow> FoodItem list" where
  "get_foods_for_nutrient n =
     sort_key price_estimate
       (filter (\<lambda>f. n \<in> set (nutrients_provided f)) (map snd FOOD_DATABASE))"

definition calculate_priority :: "int \<Rightarrow> string \<Rightarrow> ShoppingPriority" where
  "calculate_priority nutrient_priority tier =
     (if nutrient_priority = 1 then CRITICAL
      else if nutrient_priority = 2 then ShoppingPriority.HIGH
      else if nutrient_priority \<le> 3 then MODERATE
      else OPTIONAL)"

text \<open>The decimal text of a length or of a priority inside an f-string.\<close>

fun str_of_nat :: "nat \<Rightarrow> string" where
  "str_of_nat n =
     (if n < 10 then [''0123456789'' ! n]
      else str_of_nat (n div 10) @ [''0123456789'' ! (n mod 10)])"

definition str_of_int :: "int \<Rightarrow> string" where
  "str_of_int i = (if i < 0 then ''-'' @ str_of_nat (nat (- i)) else str_of_nat (nat i))"

text \<open>\<open>sep.join(xs)\<close>.\<close>

fun str_join :: "string \<Rightarrow> string list \<Rightarrow> string" where
  "str_join sep [] = []"
| "str_join sep [x] = x"
| "str_join sep (x # y # ys) = x @ sep @ str_join sep (y # ys)"

subsection \<open>Phase 1: the food pantry\<close>

definition low_budget :: "string \<Rightarrow> bool" where
  "low_budget tier = (tier \<in> set [''very_low'', ''low''])"

definition pantry_foods :: "string list" where
  "pantry_foods = [''bread'', ''canned goods'', ''produce'']"

definition pantry_item :: "Store \<Rightarrow> string \<Rightarrow> ShoppingListItem" where
  "pantry_item pantry_store pf =
     \<lparr>food = mk_food (''Pantry: '' @ str_title pf) ''pantry'' 0.0 False False [] ''varies'' 7,
      quantity = 1,
      priority = ShoppingPriority.HIGH,
      reason = ''Available FREE at food pantry'',
      suggested_store = Some (Store.name pantry_store),
      estimated_cost = 0.0,
      nutrients_addressed = []\<rparr>"

text \<open>The pantry items of phase 1, for the first pantry of the resource map: a staple is
  added when it is among the specialty items of the pantry, or when \<open>produce\<close> is.\<close>

definition pantry_items_for :: "Store \<Rightarrow> ShoppingListItem list" where
  "pantry_items_for pantry_store =
     map (pantry_item pantry_store)
       (filter (\<lambda>pf. pf \<in> set (specialty_items pantry_store) \<or>
                     ''produce'' \<in> set (specialty_items pantry_store)) pantry_foods)"

definition pantry_recommendation :: "Store \<Rightarrow> string" where
  "pantry_recommendation pantry_store =
     ''RECOMMENDATION: Visit '' @ Store.name pantry_store @ '' first (FREE). '' @
     ''Available: '' @ str_join '', '' (take 3 (specialty_items pantry_store)) @
     ''. Hours: '' @ hours pantry_store"

subsection \<open>Phase 2: one food for every top need\<close>

text \<open>The running state of the loops: the items so far, the remaining budget, the local
  dictionary \<open>nutrients_addressed\<close> and the local list \<open>reasoning\<close>.\<close>

record plan_state =
  st_items :: "ShoppingListItem list"
  st_remaining :: rat
  st_addressed :: "(string \<times> string list) list"
  st_reasoning :: "string list"

text \<open>The budget substitution inside the selection loop: under a tight budget a food
  whose key has an entry in \<open>BUDGET_ALTERNATIVES\<close> is replaced by the alternative.\<close>

definition budget_substitute :: "string \<Rightarrow> FoodItem \<Rightarrow> FoodItem" where
  "budget_substitute tier f =
     (let food_key = map fst (filter (\<lambda>(k, v). FoodItem.name v = FoodItem.name f) FOOD_DATABASE)
      in case food_key of
           [] \<Rightarrow> f
         | k # _ \<Rightarrow>
             if low_budget tier then
               (case map_of BUDGET_ALTERNATIVES k of
                  None \<Rightarrow> f
                | Some alt_key \<Rightarrow>
                    if alt_key \<noteq> [] then
                      (case map_of FOOD_DATABASE alt_key of Some alt \<Rightarrow> alt | None \<Rightarrow> f)
                    else f)
             else f)"

text \<open>The selection loop over \<open>safe_options\<close>: the first (substituted) food that is
  affordable and, for a SNAP user, SNAP eligible; \<open>None\<close> when the loop ends without a
  \<open>break\<close>.\<close>

fun select_food :: "string \<Rightarrow> bool \<Rightarrow> rat \<Rightarrow> FoodItem list \<Rightarrow> FoodItem option" where
  "select_food tier snap remaining [] = None"
| "select_food tier snap remaining (f # rest) =
     (let f' = budget_substitute tier f in
      if price_estimate f' \<le> remaining then
        (if snap \<and> \<not> snap_eligible f' then select_food tier snap remaining rest
         else Some f')
      else select_food tier snap remaining rest)"

definition is_safe :: "string list \<Rightarrow> FoodItem \<Rightarrow> bool" where
  "is_safe allergies f =
     (\<not> list_ex (\<lambda>allergy. str_contains allergy (str_lower (FoodItem.name f))) allergies)"

text \<open>
  The part of the loop body that settles the food of a need. Each \<open>continue\<close> of the code
  is a left value carrying the line written to the reasoning; the selected food is a
  right value. When the selection loop selects nothing, the first safe option is taken.
\<close>

definition resolve_need :: "UserContext \<Rightarrow> rat \<Rightarrow> NutrientNeed \<Rightarrow> string + FoodItem" where
  "resolve_need uc remaining need =
     (if remaining \<le> 0 then Inl (''BUDGET EXHAUSTED: Skipping '' @ nutrient need)
      else
        (let food_options = get_foods_for_nutrient (nutrient need) in
         if food_options = [] then Inl (''No foods found for '' @ nutrient need)
         else
           (let allergies = map str_lower (known_allergies (medical uc));
                safe_options = filter (is_safe allergies) food_options
            in case safe_options of
                 [] \<Rightarrow> Inl (''All foods for '' @ nutrient need @ '' conflict with allergies'')
               | cheapest # _ \<Rightarrow>
                   (case select_food (budget_tier (financials uc))
                           (snap_status (financials uc)) remaining safe_options of
                      Some f \<Rightarrow> Inr f
                    | None \<Rightarrow> Inr cheapest))))"

definition best_store :: "UserContext \<Rightarrow> ResourceMap \<Rightarrow> string option" where
  "best_store uc rm =
     map_option (\<lambda>tf. Store.name (store tf))
       (find (\<lambda>tf. \<not> (snap_status (financials uc) \<and> \<not> snap_accepted (store tf)) \<and>
                   inventory_level (store tf) \<noteq> InventoryLevel.LOW)
          (accessible_stores rm))"

text \<open>The \<open>else\<close> branch of the duplicate check: the first item with the food's name
  receives the nutrient, unless it lists it already.\<close>

fun merge_nutrient :: "string \<Rightarrow> string \<Rightarrow> ShoppingListItem list \<Rightarrow> ShoppingListItem list" where
  "merge_nutrient fname n [] = []"
| "merge_nutrient fname n (existing # rest) =
     (if FoodItem.name (food existing) = fname then
        (if n \<notin> set (nutrients_addressed existing) then
           existing\<lparr>nutrients_addressed := nutrients_addressed existing @ [n]\<rparr>
         else existing) # rest
      else existing # merge_nutrient fname n rest)"

definition add_selected ::
  "(rat \<Rightarrow> string) \<Rightarrow> UserContext \<Rightarrow> ResourceMap \<Rightarrow> plan_state \<Rightarrow> NutrientNeed \<Rightarrow> FoodItem
     \<Rightarrow> plan_state" where
  "add_selected fmt2 uc rm st need selected_food =
     (let item =
            \<lparr>food = selected_food,
             quantity = 1,
             priority = calculate_priority (NutrientNeed.priority need)
                          (budget_tier (financials uc)),
             reason = ''Addresses '' @ nutrient need @ '': '' @
                        take 80 (NutrientNeed.reason need) @ ''...'',
             suggested_store = best_store uc rm,
             estimated_cost = price_estimate selected_food,
             nutrients_addressed = [nutrient need]\<rparr>;
          already_have =
            list_ex (\<lambda>existing. FoodItem.name selected_food = FoodItem.name (food existing))
              (st_items st)
      in if \<not> already_have then
           st\<lparr>st_items := st_items st @ [item],
              st_remaining := st_remaining st - price_estimate selected_food,
              st_addressed :=
                AList.update (nutrient need)
                  ((case map_of (st_addressed st) (nutrient need) of
                      None \<Rightarrow> [] | Some l \<Rightarrow> l) @ [FoodItem.name selected_food])
                  (st_addressed st),
              st_reasoning := st_reasoning st @
                [''Added '' @ FoodItem.name selected_food @ '' ($'' @
                 fmt2 (price_estimate selected_food) @ '') for '' @ nutrient need @
                 '' [Priority '' @ str_of_int (NutrientNeed.priority need) @ '']'']\<rparr>
         else
           st\<lparr>st_items :=
                merge_nutrient (FoodItem.name selected_food) (nutrient need) (st_items st)\<rparr>)"

definition phase2_step ::
  "(rat \<Rightarrow> string) \<Rightarrow> UserContext \<Rightarrow> ResourceMap \<Rightarrow> plan_state \<Rightarrow> NutrientNeed \<Rightarrow> plan_state" where
  "phase2_step fmt2 uc rm st need =
     (case resolve_need uc (st_remaining st) need of
        Inl line \<Rightarrow> st\<lparr>st_reasoning := st_reasoning st @ [line]\<rparr>
      | Inr selected_food \<Rightarrow> add_selected fmt2 uc rm st need selected_food)"

subsection \<open>Phase 3: staples\<close>

definition staples :: "string list" where
  "staples = [''oats'', ''brown_rice'', ''black_beans_canned'', ''bananas'', ''peanut_butter'']"

text \<open>The staple loop stops (\<open>break\<close>) as soon as at most two dollars remain.\<close>

fun add_staples :: "plan_state \<Rightarrow> string list \<Rightarrow> plan_state" where
  "add_staples st [] = st"
| "add_staples st (staple_key # rest) =
     (if st_remaining st \<le> 2 then st
      else
        (case map_of FOOD_DATABASE staple_key of
           None \<Rightarrow> add_staples st rest
         | Some staple \<Rightarrow>
             if \<not> list_ex (\<lambda>item. FoodItem.name staple = FoodItem.name (food item)) (st_items st)
                \<and> price_estimate staple \<le> st_remaining st
             then
               add_staples
                 (st\<lparr>st_items := st_items st @
                       [\<lparr>food = staple, quantity = 1, priority = OPTIONAL,
                         reason = ''Budget-friendly staple for general nutrition'',
                         suggested_store = None,
                         estimated_cost = price_estimate staple,
                         nutrients_addressed = []\<rparr>],
                     st_remaining := st_remaining st - price_estimate staple,
                     st_reasoning := st_reasoning st @
                       [''Added staple: '' @ FoodItem.name staple]\<rparr>)
                 rest
             else add_staples st rest))"

subsection \<open>Totals, store visits, final order\<close>

text \<open>\<open>item.suggested_store or "Any Store"\<close>: \<open>None\<close> and the empty name give the
  sentinel.\<close>

definition visit_step ::
  "(string \<times> ShoppingListItem list) list \<Rightarrow> ShoppingListItem
     \<Rightarrow> (string \<times> ShoppingListItem list) list" where
  "visit_step visits item =
     (let s = (case suggested_store item of
                 None \<Rightarrow> ''Any Store''
               | Some n \<Rightarrow> if n = [] then ''Any Store'' else n)
      in AList.update s ((case map_of visits s of None \<Rightarrow> [] | Some l \<Rightarrow> l) @ [item]) visits)"

definition initial_state :: "(rat \<Rightarrow> string) \<Rightarrow> UserContext \<Rightarrow> NutrientPriorityList \<Rightarrow> ResourceMap
    \<Rightarrow> plan_state" where
  "initial_state fmt uc np rm =
     \<lparr>st_items = [],
      st_remaining = weekly_budget (financials uc),
      st_addressed = [],
      st_reasoning =
        [''Budget tier: '' @ budget_tier (financials uc) @ '' ($'' @
           fmt (weekly_budget (financials uc)) @ ''/week)'',
         ''Top '' @ str_of_nat (length (get_top_priorities np 8)) @
           '' nutrient priorities identified''] @
        (if low_budget (budget_tier (financials uc)) \<and> food_pantries rm \<noteq> [] then
           [''LOW BUDGET: Recommending food pantry as primary resource'']
         else [])\<rparr>"

text \<open>The state after phase 2 and phase 3, before the totals are taken.\<close>

definition final_state ::
  "(rat \<Rightarrow> string) \<Rightarrow> (rat \<Rightarrow> string) \<Rightarrow> UserContext \<Rightarrow> NutrientPriorityList \<Rightarrow> ResourceMap
     \<Rightarrow> plan_state" where
  "final_state fmt fmt2 uc np rm =
     add_staples
       (foldl (phase2_step fmt2 uc rm) (initial_state fmt uc np rm) (get_top_priorities np 8))
       staples"

definition generate_shopping_list ::
  "(rat \<Rightarrow> string) \<Rightarrow> (rat \<Rightarrow> string) \<Rightarrow> UserContext \<Rightarrow> NutrientPriorityList \<Rightarrow> ResourceMap
     \<Rightarrow> ShoppingList" where
  "generate_shopping_list fmt fmt2 uc np rm =
     (let st = final_state fmt fmt2 uc np rm;
          pantry_phase = (low_budget (budget_tier (financials uc)) \<and> food_pantries rm \<noteq> [])
      in \<lparr>ShoppingList.user_id = UserContext.user_id uc,
          items = sort_key (\<lambda>x. priority_value (ShoppingListItem.priority x)) (st_items st),
          total_estimated_cost = sum_list (map estimated_cost (st_items st)),
          budget_remaining = st_remaining st,
          pantry_items =
            (case food_pantries rm of
               [] \<Rightarrow> []
             | pantry # _ \<Rightarrow> if pantry_phase then pantry_items_for (store pantry) else []),
          store_visits = foldl visit_step [] (st_items st),
          reasoning_log =
            (case food_pantries rm of
               [] \<Rightarrow> []
             | pantry # _ \<Rightarrow>
                 if pantry_phase then [pantry_recommendation (store pantry)] else []) @
            st_reasoning st\<rparr>)"

section \<open>Notions used by the statements\<close>

subsection \<open>Consolidation\<close>

text \<open>The dictionary of \<open>consolidate_nutrient_needs\<close> after the needs \<open>xs\<close>.\<close>

definition cons_map :: "NutrientNeed list \<Rightarrow> (string \<times> NutrientNeed) list" where
  "cons_map xs = foldl consolidate_step [] xs"

text \<open>The entry of a need list for a nutrient name, if there is one.\<close>

definition entry_for :: "string \<Rightarrow> NutrientNeed list \<Rightarrow> NutrientNeed option" where
  "entry_for k ns = find (\<lambda>e. nutrient e = k) ns"

definition need_summary :: "NutrientNeed \<Rightarrow> string \<times> int \<times> string" where
  "need_summary n = (nutrient n, NutrientNeed.priority n, NutrientNeed.reason n)"

subsection \<open>The plan builder\<close>


definition item_names :: "ShoppingListItem list \<Rightarrow> string list" where
  "item_names xs = map (\<lambda>it. FoodItem.name (food it)) xs"

text \<open>Some item of the list is the food \<open>fname\<close> and lists the nutrient \<open>n\<close>.\<close>

definition addressed :: "ShoppingListItem list \<Rightarrow> string \<Rightarrow> string \<Rightarrow> bool" where
  "addressed xs fname n =
     list_ex (\<lambda>it. FoodItem.name (food it) = fname \<and> n \<in> set (nutrients_addressed it)) xs"

text \<open>
  What phase 2 settles for each need, in the order of the loop: the need, and the outcome
  of \<open>resolve_need\<close> at the budget that remains when the loop reaches it.
\<close>

fun phase2_trace ::
  "(rat \<Rightarrow> string) \<Rightarrow> UserContext \<Rightarrow> ResourceMap \<Rightarrow> plan_state \<Rightarrow> NutrientNeed list
     \<Rightarrow> (NutrientNeed \<times> (string + FoodItem)) list" where
  "phase2_trace fmt2 uc rm st [] = []"
| "phase2_trace fmt2 uc rm st (need # rest) =
     (need, resolve_need uc (st_remaining st) need) #
     phase2_trace fmt2 uc rm (phase2_step fmt2 uc rm st need) rest"

definition resolutions ::
  "(rat \<Rightarrow> string) \<Rightarrow> (rat \<Rightarrow> string) \<Rightarrow> UserContext \<Rightarrow> NutrientPriorityList \<Rightarrow> ResourceMap
     \<Rightarrow> (NutrientNeed \<times> (string + FoodItem)) list" where
  "resolutions fmt fmt2 uc np rm =
     phase2_trace fmt2 uc rm (initial_state fmt uc np rm) (get_top_priorities np 8)"

subsection \<open>Concrete inputs\<close>

text \<open>A number-to-text conversion for the concrete runs; its result is immaterial.\<close>

definition no_fmt :: "rat \<Rightarrow> string" where
  "no_fmt x = ''?''"

definition plain_user :: "rat \<Rightarrow> UserContext" where
  "plain_user budget =
     \<lparr>UserContext.user_id = ''user_anonymous'',
      name = ''Anonymous'',
      financials = \<lparr>weekly_budget = budget, snap_status = False, wic_status = False,
                     annual_income = None\<rparr>,
      logistics = \<lparr>zip_code = ''00000'', has_vehicle = False, has_public_transit = False,
                    grocery_trips_per_week = 1, max_travel_distance_miles = 2.0\<rparr>,
      medical = \<lparr>family_history = [], previous_conditions = [], current_symptoms = [],
                  known_allergies = [], medications = []\<rparr>,
      lab_results = None\<rparr>"

text \<open>Low iron in the lab record and fatigue among the symptoms.\<close>

definition uc_fatigue :: UserContext where
  "uc_fatigue =
     (plain_user 120)
       \<lparr>medical := (medical (plain_user 120))\<lparr>current_symptoms := [''Fatigue'']\<rparr>,
        lab_results := Some (LabResults_default\<lparr>iron_level := Some 50\<rparr>)\<rparr>"

text \<open>A spinach allergy, cancer in the family history, sixty dollars a week.\<close>

definition uc_spinach :: UserContext where
  "uc_spinach =
     (plain_user 60)
       \<lparr>medical := (medical (plain_user 60))
          \<lparr>family_history := [''cancer''], known_allergies := [''spinach'']\<rparr>\<rparr>"

definition rm_empty :: ResourceMap where
  "rm_empty =
     \<lparr>user_zip = ''00000'', accessible_stores = [], food_pantries = [], snap_stores = [],
      all_stores = []\<rparr>"

text \<open>A pantry whose only specialty item is \<open>produce\<close>, and the resource map that holds
  just this pantry.\<close>

definition produce_pantry :: Store where
  "produce_pantry =
     \<lparr>Store.name = ''Garden Pantry'', store_type = FOOD_PANTRY, distance_miles = 1.0,
      snap_accepted = False, wic_accepted = False, inventory_level = InventoryLevel.MEDIUM,
      price_tier = 1, specialty_items = [''produce''], hours = ''9am-5pm''\<rparr>"

definition rm_produce :: ResourceMap where
  "rm_produce =
     (let tf = calculate_travel_feasibility produce_pantry (logistics (plain_user 40))
      in \<lparr>user_zip = ''00000'', accessible_stores = [tf], food_pantries = [tf],
          snap_stores = [], all_stores = [produce_pantry]\<rparr>)"

definition np_empty :: NutrientPriorityList where
  "np_empty = \<lparr>NutrientPriorityList.user_id = ''user_anonymous'', needs = [], warnings = []\<rparr>"

text \<open>Two needs that share their cheapest food, canned sardines.\<close>

definition need_b12 :: NutrientNeed where
  "need_b12 =
     \<lparr>nutrient = ''Vitamin B12'', priority = 1,
      reason = ''B12 level (280 pg/mL) is deficient - urgent supplementation recommended'',
      related_markers = [''B12'', ''MCV'', ''homocysteine''],
      food_sources = sources_for ''Vitamin B12''\<rparr>"

definition need_vitamin_d :: NutrientNeed where
  "need_vitamin_d =
     \<lparr>nutrient = ''Vitamin D'', priority = 1,
      reason = ''Vitamin D level (18 ng/mL) is deficient - significant health impact'',
      related_markers = [''25-OH Vitamin D'', ''calcium'', ''PTH''],
      food_sources = sources_for ''Vitamin D''\<rparr>"

definition np_b12_d :: NutrientPriorityList where
  "np_b12_d =
     \<lparr>NutrientPriorityList.user_id = ''user_anonymous'',
      needs = [need_b12, need_vitamin_d], warnings = []\<rparr>"

definition sardines_canned :: FoodItem where
  "sardines_canned =
     mk_food ''Sardines (canned)'' ''canned'' 2.00 True False
       [''Vitamin B12'', ''Vitamin D'', ''Omega-3 Fatty Acids''] ''4 oz can'' 1095"

text \<open>The iron need of the fatigue rule and the iron need of the lab rule.\<close>

definition need_iron_symptom :: NutrientNeed where
  "need_iron_symptom =
     \<lparr>nutrient = ''Iron'', priority = 3,
      reason = ''Fatigue reported - iron deficiency is a common cause'',
      related_markers = [''symptoms: fatigue''],
      food_sources = sources_for ''Iron''\<rparr>"

definition need_iron_lab :: NutrientNeed where
  "need_iron_lab =
     \<lparr>nutrient = ''Iron'', priority = 1,
      reason = ''Iron level (50 mcg/dL) is low - may cause fatigue and anemia'',
      related_markers = [''serum iron'', ''ferritin'', ''TIBC''],
      food_sources = sources_for ''Iron''\<rparr>"

section \<open>The need analyzer: lab bands\<close>

lemma ref_value_simps:
  "ref_value ''vitamin_b12'' ''low'' = 300"
  "ref_value ''vitamin_b12'' ''optimal_low'' = 500"
  "ref_value ''vitamin_d'' ''low'' = 20"
  "ref_value ''vitamin_d'' ''optimal_low'' = 40"
  "ref_value ''iron'' ''low'' = 60"
  "ref_value ''iron'' ''optimal_low'' = 80"
  "ref_value ''crp'' ''elevated'' = 3"
  "ref_value ''crp'' ''high'' = 10"
  "ref_value ''homocysteine'' ''elevated'' = 12"
  "ref_value ''homocysteine'' ''high'' = 15"
  "ref_value ''glucose_fasting'' ''optimal_high'' = 100"
  "ref_value ''glucose_fasting'' ''prediabetic'' = 125"
  by (simp_all add: ref_value_def LAB_REFERENCE_RANGES_def)

lemma vitamin_d_needs_names: "n \<in> set (vitamin_d_needs fmt lab) \<Longrightarrow> nutrient n = ''Vitamin D''"
  by (auto simp: vitamin_d_needs_def split: option.splits if_splits)

lemma iron_needs_names: "n \<in> set (iron_needs fmt lab) \<Longrightarrow> nutrient n = ''Iron''"
  by (auto simp: iron_needs_def split: option.splits if_splits)

lemma filter_other_name:
  assumes "\<And>n. n \<in> set xs \<Longrightarrow> nutrient n = a" and "a \<noteq> b"
  shows "filter (\<lambda>n. nutrient n = b) xs = []"
  using assms by (auto simp: filter_empty_conv)

text \<open>
  Claim C9. For a lab record with a vitamin B12 level \<open>v\<close>, the Vitamin B12 needs that
  \<open>analyze_vitamin_levels\<close> emits are: one need of priority 1 when \<open>v < 300\<close>, one need of
  priority 2 when \<open>300 \<le> v < 500\<close>, and none when \<open>v \<ge> 500\<close>.
\<close>

theorem b12_priority_bands:
  assumes "vitamin_b12_level lab = Some v"
  shows "map NutrientNeed.priority
           (filter (\<lambda>n. nutrient n = ''Vitamin B12'') (analyze_vitamin_levels fmt lab)) =
         (if v < 300 then [1] else if v < 500 then [2] else [])"
proof -
  have d: "filter (\<lambda>n. nutrient n = ''Vitamin B12'') (vitamin_d_needs fmt lab) = []"
    by (rule filter_other_name [where a = "''Vitamin D''"]) (auto dest: vitamin_d_needs_names)
  have i: "filter (\<lambda>n. nutrient n = ''Vitamin B12'') (iron_needs fmt lab) = []"
    by (rule filter_other_name [where a = "''Iron''"]) (auto dest: iron_needs_names)
  show ?thesis
    using assms by (simp add: analyze_vitamin_levels_def d i b12_needs_def ref_value_simps)
qed

text \<open>The boundary value 300 is in the second band.\<close>

theorem b12_priority_bands_witness:
  "vitamin_b12_level (LabResults_default\<lparr>vitamin_b12_level := Some 300\<rparr>) = Some 300 \<and>
   map NutrientNeed.priority
     (filter (\<lambda>n. nutrient n = ''Vitamin B12'')
        (analyze_vitamin_levels no_fmt (LabResults_default\<lparr>vitamin_b12_level := Some 300\<rparr>))) =
   [2]"
  using b12_priority_bands [of "LabResults_default\<lparr>vitamin_b12_level := Some 300\<rparr>" 300 no_fmt]
  by simp

text \<open>The other lab rules with two thresholds, for comparison with the iron rule: vitamin D
  below 20 and below 40, CRP above 10 and above 3, homocysteine above 15 and above 12,
  fasting glucose from 125 and above 100 (with a Chromium need one priority lower).\<close>

lemma vitamin_d_priority_bands:
  "vitamin_d_level lab = Some v \<Longrightarrow>
     map NutrientNeed.priority (vitamin_d_needs fmt lab) =
       (if v < 20 then [1] else if v < 40 then [2] else [])"
  by (simp add: vitamin_d_needs_def ref_value_simps)

lemma crp_priority_bands:
  "crp_level lab = Some v \<Longrightarrow>
     map NutrientNeed.priority (crp_needs fmt lab) =
       (if v > 10 then [1, 1] else if v > 3 then [2, 2] else [])"
  by (simp add: crp_needs_def ref_value_simps Let_def)

lemma homocysteine_priority_bands:
  "homocysteine_level lab = Some v \<Longrightarrow>
     map NutrientNeed.priority (homocysteine_needs fmt lab) =
       (if v > 15 then [1] else if v > 12 then [2] else [])"
  by (simp add: homocysteine_needs_def ref_value_simps Let_def)

lemma glucose_priority_bands:
  "glucose_fasting lab = Some v \<Longrightarrow>
     map need_summary (analyze_metabolic_markers fmt lab) =
       (if v > 100 then
          [(''Fiber'', (if v < 125 then 2 else 1),
            ''Fasting glucose ('' @ fmt v @ '' mg/dL) elevated - fiber helps regulate blood sugar''),
           (''Chromium'', (if v < 125 then 3 else 2),
            ''Chromium supports glucose metabolism with elevated fasting glucose ('' @ fmt v @
            '')'')]
        else [])"
  by (simp add: analyze_metabolic_markers_def ref_value_simps Let_def need_summary_def
      ref_unit_def LAB_REFERENCE_RANGES_def)

lemma iron_priority_bands:
  "iron_level lab = Some v \<Longrightarrow>
     map NutrientNeed.priority (iron_needs fmt lab) = (if v < 60 then [1] else [])"
  by (simp add: iron_needs_def ref_value_simps)


section \<open>The need analyzer: unused biomarkers\<close>

text \<open>
  Claim C10. Two profiles that differ only in the ferritin level and the omega-3 index of
  the lab record have the same analysis: the same needs, in the same order, and the same
  warnings.
\<close>

theorem ferritin_omega3_ignored:
  "analyze_lab_data fmt
     (uc\<lparr>lab_results := Some (lab\<lparr>ferritin_level := f1, omega3_index := o1\<rparr>)\<rparr>) =
   analyze_lab_data fmt
     (uc\<lparr>lab_results := Some (lab\<lparr>ferritin_level := f2, omega3_index := o2\<rparr>)\<rparr>)"
  by (simp add: analyze_lab_data_def filtered_needs_def collect_needs_def lab_needs_def
      lab_warnings_def analyze_methylation_markers_def analyze_vitamin_levels_def
      b12_needs_def vitamin_d_needs_def iron_needs_def analyze_inflammation_markers_def
      crp_needs_def homocysteine_needs_def analyze_metabolic_markers_def)

section \<open>The need analyzer: consolidation\<close>

lemma consolidate_step_keys:
  "map fst (consolidate_step m n) = map fst (AList.update (nutrient n) n m)"
  by (simp add: consolidate_step_def AList.update_keys split: option.splits)

lemma consolidate_step_distinct:
  "distinct (map fst m) \<Longrightarrow> distinct (map fst (consolidate_step m n))"
  by (simp add: consolidate_step_keys AList.distinct_update)

text \<open>One step of the loop, read as an update of a finite map.\<close>

lemma consolidate_step_map_of:
  "map_of (consolidate_step m n) =
     (map_of m)(nutrient n \<mapsto>
        (case map_of m (nutrient n) of
           None \<Rightarrow> n
         | Some e \<Rightarrow>
             if NutrientNeed.priority n < NutrientNeed.priority e then
               \<lparr>nutrient = nutrient n, priority = NutrientNeed.priority n,
                reason = NutrientNeed.reason n @ ''; Also: '' @ NutrientNeed.reason e,
                related_markers = list_of_set (related_markers e @ related_markers n),
                food_sources = food_sources n\<rparr>
             else e\<lparr>related_markers := list_of_set (related_markers e @ related_markers n)\<rparr>))"
  by (simp add: consolidate_step_def AList.update_conv' split: option.splits)

lemma cons_map_snoc: "cons_map (xs @ [x]) = consolidate_step (cons_map xs) x"
  by (simp add: cons_map_def)

lemma cons_map_distinct: "distinct (map fst (cons_map xs))"
  by (induction xs rule: rev_induct) (simp_all add: cons_map_def consolidate_step_distinct)

lemma cons_map_keys: "fst ` set (cons_map xs) = nutrient ` set xs"
proof (induction xs rule: rev_induct)
  case Nil
  show ?case by (simp add: cons_map_def)
next
  case (snoc x xs)
  have "set (map fst (cons_map (xs @ [x]))) = insert (nutrient x) (fst ` set (cons_map xs))"
    unfolding cons_map_snoc consolidate_step_keys by (auto simp: AList.update_keys)
  with snoc show ?case by simp
qed

lemma cons_map_dom: "dom (map_of (cons_map xs)) = nutrient ` set xs"
  by (simp add: dom_map_of_conv_image_fst cons_map_keys)

text \<open>
  The invariant of the loop. The entry under a name carries that name; its priority is
  the priority of one of the needs with the name and is at most the priority of each of
  them; its markers are the markers of all of them.
\<close>

lemma cons_map_entry:
  "map_of (cons_map xs) k = Some e \<Longrightarrow>
     nutrient e = k \<and>
     (\<exists>n\<in>set xs. nutrient n = k \<and> NutrientNeed.priority n = NutrientNeed.priority e) \<and>
     (\<forall>n\<in>set xs. nutrient n = k \<longrightarrow> NutrientNeed.priority e \<le> NutrientNeed.priority n) \<and>
     set (related_markers e) = (\<Union>n\<in>{n \<in> set xs. nutrient n = k}. set (related_markers n))"
proof (induction xs arbitrary: e rule: rev_induct)
  case Nil
  then show ?case by (simp add: cons_map_def)
next
  case (snoc x xs)
  show ?case
  proof (cases "nutrient x = k")
    case False
    with snoc.prems have "map_of (cons_map xs) k = Some e"
      by (simp add: cons_map_snoc consolidate_step_map_of)
    from snoc.IH [OF this] False show ?thesis by auto
  next
    case True
    show ?thesis
    proof (cases "map_of (cons_map xs) k")
      case None
      with True snoc.prems have e: "e = x"
        by (simp add: cons_map_snoc consolidate_step_map_of)
      from None have "k \<notin> nutrient ` set xs"
        unfolding cons_map_dom [symmetric] by (simp add: domIff)
      then have no: "\<And>n. n \<in> set xs \<Longrightarrow> nutrient n \<noteq> k"
        by blast
      from e True show ?thesis by (auto dest: no)
    next
      case (Some e0)
      note IH = snoc.IH [OF Some]
      show ?thesis
      proof (cases "NutrientNeed.priority x < NutrientNeed.priority e0")
        case lt: True
        with True Some snoc.prems have e:
          "e = \<lparr>nutrient = nutrient x, priority = NutrientNeed.priority x,
                reason = NutrientNeed.reason x @ ''; Also: '' @ NutrientNeed.reason e0,
                related_markers = list_of_set (related_markers e0 @ related_markers x),
                food_sources = food_sources x\<rparr>"
          by (simp add: cons_map_snoc consolidate_step_map_of)
        have m: "set (related_markers e) = set (related_markers e0) \<union> set (related_markers x)"
          by (simp add: e list_of_set_def)
        have p: "NutrientNeed.priority e = NutrientNeed.priority x" and nm: "nutrient e = k"
          using True by (simp_all add: e)
        show ?thesis
          using IH lt True unfolding m p nm by (auto 4 4)
      next
        case ge: False
        with True Some snoc.prems have e:
          "e = e0\<lparr>related_markers := list_of_set (related_markers e0 @ related_markers x)\<rparr>"
          by (simp add: cons_map_snoc consolidate_step_map_of)
        have m: "set (related_markers e) = set (related_markers e0) \<union> set (related_markers x)"
          by (simp add: e list_of_set_def)
        have p: "NutrientNeed.priority e = NutrientNeed.priority e0"
          and nm: "nutrient e = nutrient e0"
          by (simp_all add: e)
        show ?thesis
          using IH ge True unfolding m p nm by (auto 4 4)
      qed
    qed
  qed
qed

lemma cons_map_values:
  assumes "p \<in> set (cons_map xs)"
  shows "map_of (cons_map xs) (fst p) = Some (snd p)"
proof -
  from assms have "(fst p, snd p) \<in> set (cons_map xs)" by simp
  with cons_map_distinct [of xs] show ?thesis
    by (simp only: map_of_eq_Some_iff)
qed

lemma cons_map_value_name: "p \<in> set (cons_map xs) \<Longrightarrow> nutrient (snd p) = fst p"
  using cons_map_entry [OF cons_map_values] by blast

lemma find_by_key:
  "(\<And>p. p \<in> set m \<Longrightarrow> nutrient (snd p) = fst p) \<Longrightarrow>
     find (\<lambda>e. nutrient e = k) (map snd m) = map_of m k"
  by (induction m) auto

lemma entry_for_consolidate:
  "entry_for k (consolidate_nutrient_needs xs) = map_of (cons_map xs) k"
  unfolding entry_for_def consolidate_nutrient_needs_def cons_map_def [symmetric]
  by (rule find_by_key) (rule cons_map_value_name)

lemma consolidate_set:
  "e \<in> set (consolidate_nutrient_needs xs) \<longleftrightarrow> map_of (cons_map xs) (nutrient e) = Some e"
proof
  assume "e \<in> set (consolidate_nutrient_needs xs)"
  then obtain p where p: "p \<in> set (cons_map xs)" "e = snd p"
    by (auto simp: consolidate_nutrient_needs_def cons_map_def)
  from cons_map_values [OF p(1)] have m: "map_of (cons_map xs) (fst p) = Some e"
    by (simp add: p)
  with cons_map_entry [OF m] show "map_of (cons_map xs) (nutrient e) = Some e" by simp
next
  assume "map_of (cons_map xs) (nutrient e) = Some e"
  then have "(nutrient e, e) \<in> set (cons_map xs)" by (rule map_of_SomeD)
  then show "e \<in> set (consolidate_nutrient_needs xs)"
    by (force simp: consolidate_nutrient_needs_def cons_map_def)
qed

lemma consolidate_names:
  "map nutrient (consolidate_nutrient_needs xs) = map fst (cons_map xs)"
  unfolding consolidate_nutrient_needs_def cons_map_def [symmetric]
  by (simp add: cons_map_value_name)

lemma consolidate_distinct: "distinct (map nutrient (consolidate_nutrient_needs xs))"
  by (simp add: consolidate_names cons_map_distinct)

lemma consolidate_name_set:
  "nutrient ` set (consolidate_nutrient_needs xs) = nutrient ` set xs"
  using cons_map_keys [of xs] consolidate_names [of xs]
  by (metis list.set_map)

lemma distinct_map_sort_key:
  assumes "distinct (map f xs)"
  shows "distinct (map f (sort_key k xs))"
proof -
  have "mset (map f (sort_key k xs)) = mset (map f xs)" by simp
  with assms show ?thesis
    by (metis mset_eq_imp_distinct_iff)
qed

lemma needs_analyze:
  "needs (analyze_lab_data fmt uc) =
     sort_key NutrientNeed.priority (consolidate_nutrient_needs (filtered_needs fmt uc))"
  by (simp add: analyze_lab_data_def)

text \<open>
  Claim C2. In the need list returned by \<open>analyze_lab_data\<close> no two entries have the same
  nutrient name; the priorities are in non-decreasing order; every name of a need before
  consolidation has an entry and no other name has one; and the priority of an entry is
  the priority of one of the needs of its name before consolidation, and is at most the
  priority of each of them.
\<close>

theorem need_list_unique_lowest_sorted:
  "distinct (map nutrient (needs (analyze_lab_data fmt uc))) \<and>
   sorted (map NutrientNeed.priority (needs (analyze_lab_data fmt uc))) \<and>
   nutrient ` set (needs (analyze_lab_data fmt uc)) = nutrient ` set (filtered_needs fmt uc) \<and>
   (\<forall>e\<in>set (needs (analyze_lab_data fmt uc)).
      (\<exists>n\<in>set (filtered_needs fmt uc).
         nutrient n = nutrient e \<and> NutrientNeed.priority n = NutrientNeed.priority e) \<and>
      (\<forall>n\<in>set (filtered_needs fmt uc).
         nutrient n = nutrient e \<longrightarrow> NutrientNeed.priority e \<le> NutrientNeed.priority n))"
proof -
  have d: "distinct (map nutrient (needs (analyze_lab_data fmt uc)))"
    unfolding needs_analyze by (rule distinct_map_sort_key) (rule consolidate_distinct)
  have s: "sorted (map NutrientNeed.priority (needs (analyze_lab_data fmt uc)))"
    unfolding needs_analyze by (rule sorted_sort_key)
  have n: "nutrient ` set (needs (analyze_lab_data fmt uc)) = nutrient ` set (filtered_needs fmt uc)"
    by (simp add: needs_analyze consolidate_name_set)
  have p: "\<And>e. e \<in> set (needs (analyze_lab_data fmt uc)) \<Longrightarrow>
      (\<exists>n\<in>set (filtered_needs fmt uc).
         nutrient n = nutrient e \<and> NutrientNeed.priority n = NutrientNeed.priority e) \<and>
      (\<forall>n\<in>set (filtered_needs fmt uc).
         nutrient n = nutrient e \<longrightarrow> NutrientNeed.priority e \<le> NutrientNeed.priority n)"
  proof -
    fix e
    assume "e \<in> set (needs (analyze_lab_data fmt uc))"
    then have "map_of (cons_map (filtered_needs fmt uc)) (nutrient e) = Some e"
      by (simp add: needs_analyze consolidate_set)
    from cons_map_entry [OF this]
    show "(\<exists>n\<in>set (filtered_needs fmt uc).
         nutrient n = nutrient e \<and> NutrientNeed.priority n = NutrientNeed.priority e) \<and>
      (\<forall>n\<in>set (filtered_needs fmt uc).
         nutrient n = nutrient e \<longrightarrow> NutrientNeed.priority e \<le> NutrientNeed.priority n)"
      by blast
  qed
  from d s n p show ?thesis by blast
qed

text \<open>The run for low iron and fatigue: three needs before consolidation, two after.\<close>

lemma fatigue_filtered:
  "map need_summary (filtered_needs no_fmt uc_fatigue) =
     [(''Iron'', 1, ''Iron level (? mcg/dL) is low - may cause fatigue and anemia''),
      (''Iron'', 3, ''Fatigue reported - iron deficiency is a common cause''),
      (''Vitamin B12'', 3, ''Fatigue reported - B12 supports energy metabolism'')]"
  by code_simp

lemma fatigue_needs:
  "map need_summary (needs (analyze_lab_data no_fmt uc_fatigue)) =
     [(''Iron'', 1, ''Iron level (? mcg/dL) is low - may cause fatigue and anemia''),
      (''Vitamin B12'', 3, ''Fatigue reported - B12 supports energy metabolism'')]"
  by code_simp

theorem need_list_unique_lowest_sorted_witness:
  "map need_summary (needs (analyze_lab_data no_fmt uc_fatigue)) =
     [(''Iron'', 1, ''Iron level (? mcg/dL) is low - may cause fatigue and anemia''),
      (''Vitamin B12'', 3, ''Fatigue reported - B12 supports energy metabolism'')] \<and>
   map need_summary (filtered_needs no_fmt uc_fatigue) =
     [(''Iron'', 1, ''Iron level (? mcg/dL) is low - may cause fatigue and anemia''),
      (''Iron'', 3, ''Fatigue reported - iron deficiency is a common cause''),
      (''Vitamin B12'', 3, ''Fatigue reported - B12 supports energy metabolism'')] \<and>
   distinct (map nutrient (needs (analyze_lab_data no_fmt uc_fatigue))) \<and>
   sorted (map NutrientNeed.priority (needs (analyze_lab_data no_fmt uc_fatigue)))"
  using need_list_unique_lowest_sorted [of no_fmt uc_fatigue] fatigue_needs fatigue_filtered
  by blast

text \<open>
  Claim C8, as stated, fails. The claim lets the consolidated entry carry the reasons of
  all discarded needs, also of a discarded need whose priority number is equal or higher.
  For low iron and fatigue the lab need (priority 1) comes first and the symptom need
  (priority 3) is discarded; the consolidated Iron entry has the reason of the lab need
  alone.
\<close>

theorem consolidation_reason_counterexample:
  "map need_summary (filtered_needs no_fmt uc_fatigue) =
     [(''Iron'', 1, ''Iron level (? mcg/dL) is low - may cause fatigue and anemia''),
      (''Iron'', 3, ''Fatigue reported - iron deficiency is a common cause''),
      (''Vitamin B12'', 3, ''Fatigue reported - B12 supports energy metabolism'')] \<and>
   map need_summary (consolidate_nutrient_needs (filtered_needs no_fmt uc_fatigue)) =
     [(''Iron'', 1, ''Iron level (? mcg/dL) is low - may cause fatigue and anemia''),
      (''Vitamin B12'', 3, ''Fatigue reported - B12 supports energy metabolism'')] \<and>
   \<not> str_contains ''Fatigue reported - iron deficiency is a common cause''
       ''Iron level (? mcg/dL) is low - may cause fatigue and anemia''"
  by code_simp

text \<open>
  Claim C8, amended. For every list of needs, the markers of a consolidated entry are
  the markers of all needs of its name. When a further need arrives for a name that has
  an entry, the reason of the new entry is the reason of the arriving need, the text
  \<open>; Also: \<close> and the old reason if the arriving need has a strictly smaller priority
  number; otherwise the old reason is kept unchanged and the reason of the arriving need
  is dropped.
\<close>

theorem consolidation_markers_and_reason:
  "(\<forall>e\<in>set (consolidate_nutrient_needs xs).
      set (related_markers e) =
        (\<Union>n\<in>{n \<in> set xs. nutrient n = nutrient e}. set (related_markers n))) \<and>
   (entry_for (nutrient x) (consolidate_nutrient_needs xs) = Some e0 \<longrightarrow>
      (\<exists>e. entry_for (nutrient x) (consolidate_nutrient_needs (xs @ [x])) = Some e \<and>
           NutrientNeed.reason e =
             (if NutrientNeed.priority x < NutrientNeed.priority e0
              then NutrientNeed.reason x @ ''; Also: '' @ NutrientNeed.reason e0
              else NutrientNeed.reason e0)))"
proof (intro conjI ballI impI)
  fix e assume "e \<in> set (consolidate_nutrient_needs xs)"
  then have "map_of (cons_map xs) (nutrient e) = Some e"
    by (simp add: consolidate_set)
  from cons_map_entry [OF this]
  show "set (related_markers e) =
        (\<Union>n\<in>{n \<in> set xs. nutrient n = nutrient e}. set (related_markers n))"
    by simp
next
  assume "entry_for (nutrient x) (consolidate_nutrient_needs xs) = Some e0"
  then have m: "map_of (cons_map xs) (nutrient x) = Some e0"
    by (simp add: entry_for_consolidate)
  show "\<exists>e. entry_for (nutrient x) (consolidate_nutrient_needs (xs @ [x])) = Some e \<and>
           NutrientNeed.reason e =
             (if NutrientNeed.priority x < NutrientNeed.priority e0
              then NutrientNeed.reason x @ ''; Also: '' @ NutrientNeed.reason e0
              else NutrientNeed.reason e0)"
    by (simp add: entry_for_consolidate cons_map_snoc consolidate_step_map_of m)
qed

text \<open>The symptom need first, the lab need second: the lab reason is put in front.\<close>

theorem consolidation_markers_and_reason_witness:
  "entry_for (nutrient need_iron_lab) (consolidate_nutrient_needs [need_iron_symptom]) =
     Some need_iron_symptom \<and>
   NutrientNeed.priority need_iron_lab < NutrientNeed.priority need_iron_symptom \<and>
   (\<exists>e. entry_for (nutrient need_iron_lab)
          (consolidate_nutrient_needs ([need_iron_symptom] @ [need_iron_lab])) = Some e \<and>
        NutrientNeed.reason e =
          ''Iron level (50 mcg/dL) is low - may cause fatigue and anemia; Also: '' @
          ''Fatigue reported - iron deficiency is a common cause'') \<and>
   map (\<lambda>e. set (related_markers e))
     (consolidate_nutrient_needs [need_iron_symptom, need_iron_lab]) =
     [{''symptoms: fatigue'', ''serum iron'', ''ferritin'', ''TIBC''}]"
proof -
  have h: "entry_for (nutrient need_iron_lab) (consolidate_nutrient_needs [need_iron_symptom]) =
     Some need_iron_symptom"
    by (simp add: entry_for_def consolidate_nutrient_needs_def consolidate_step_def
        need_iron_lab_def need_iron_symptom_def)
  have p: "NutrientNeed.priority need_iron_lab < NutrientNeed.priority need_iron_symptom"
    by (simp add: need_iron_lab_def need_iron_symptom_def)
  have n: "nutrient need_iron_lab = ''Iron''" "nutrient need_iron_symptom = ''Iron''"
    by (simp_all add: need_iron_lab_def need_iron_symptom_def)
  have r: "NutrientNeed.reason need_iron_lab @ ''; Also: '' @ NutrientNeed.reason need_iron_symptom =
      ''Iron level (50 mcg/dL) is low - may cause fatigue and anemia; Also: '' @
      ''Fatigue reported - iron deficiency is a common cause''"
    by (simp add: need_iron_lab_def need_iron_symptom_def)
  have c: "consolidate_nutrient_needs [need_iron_symptom, need_iron_lab] =
      [\<lparr>nutrient = ''Iron'', priority = 1,
        reason = NutrientNeed.reason need_iron_lab @ ''; Also: '' @
                 NutrientNeed.reason need_iron_symptom,
        related_markers = [''symptoms: fatigue'', ''serum iron'', ''ferritin'', ''TIBC''],
        food_sources = sources_for ''Iron''\<rparr>]"
    by (simp add: consolidate_nutrient_needs_def consolidate_step_def list_of_set_def
        need_iron_lab_def need_iron_symptom_def)
  have a: "map (\<lambda>e. set (related_markers e))
     (consolidate_nutrient_needs [need_iron_symptom, need_iron_lab]) =
     [{''symptoms: fatigue'', ''serum iron'', ''ferritin'', ''TIBC''}]"
    by (simp add: c)
  from consolidation_markers_and_reason [of "[need_iron_symptom]" need_iron_lab need_iron_symptom]
    h p r
  have b: "\<exists>e. entry_for (nutrient need_iron_lab)
          (consolidate_nutrient_needs ([need_iron_symptom] @ [need_iron_lab])) = Some e \<and>
        NutrientNeed.reason e =
          ''Iron level (50 mcg/dL) is low - may cause fatigue and anemia; Also: '' @
          ''Fatigue reported - iron deficiency is a common cause''"
    by simp
  from h p a b show ?thesis by blast
qed

section \<open>The resource scorer: reachability\<close>

lemma py_int_le: "x \<le> of_int k \<Longrightarrow> py_int x \<le> k"
  by (auto simp: py_int_def floor_le_iff ceiling_le_iff intro: order_trans)

lemma travel_time_drive: "calculate_travel_time d ''drive'' = py_int (d / 25 * 60)"
  by (simp add: calculate_travel_time_def)

lemma travel_time_transit: "calculate_travel_time d ''transit'' = py_int (d / 12 * 60 + 10)"
  by (simp add: calculate_travel_time_def)

text \<open>Driving up to 8 miles and riding transit up to 2 miles never take more than 45
  minutes, so the long-trip rule cannot strike when the preferred method replaces a
  fallback.\<close>

lemma drive_short: "d \<le> 8 \<Longrightarrow> \<not> calculate_travel_time d ''drive'' > 45"
proof -
  assume "d \<le> 8"
  then have "d / 25 * 60 \<le> of_int 45" by simp
  from py_int_le [OF this] show ?thesis by (simp add: travel_time_drive)
qed

lemma transit_short: "d \<le> 2 \<Longrightarrow> \<not> calculate_travel_time d ''transit'' > 45"
proof -
  assume "d \<le> 2"
  then have "d / 12 * 60 + 10 \<le> of_int 45" by simp
  from py_int_le [OF this] show ?thesis by (simp add: travel_time_transit)
qed

text \<open>The reachability verdict of \<open>calculate_travel_feasibility\<close>, without the score and
  the notes.\<close>

lemma is_accessible_feasibility:
  "is_accessible (calculate_travel_feasibility s l) =
     (let d = distance_miles s;
          method0 = (if has_vehicle l then ''drive''
                     else if has_public_transit l then ''transit'' else ''walk'');
          near = (d \<le> max_travel_distance_miles l);
          method = (if near then method0 else if d \<le> 2 then ''walk''
                    else if d \<le> 8 \<and> has_public_transit l then ''transit'' else method0);
          acc = (near \<or> d \<le> 2 \<or> (d \<le> 8 \<and> has_public_transit l))
      in if calculate_travel_time d method > 45 then acc \<and> grocery_trips_per_week l \<ge> 2
         else acc)"
  by (simp add: calculate_travel_feasibility_def Let_def)

lemma feasibility_monotone:
  assumes le: "max_travel_distance_miles l \<le> m"
    and acc: "is_accessible (calculate_travel_feasibility s l)"
  shows "is_accessible (calculate_travel_feasibility s (l\<lparr>max_travel_distance_miles := m\<rparr>))"
proof (cases "distance_miles s \<le> max_travel_distance_miles l")
  case True
  with le have "distance_miles s \<le> m" by simp
  with True acc show ?thesis
    by (simp add: is_accessible_feasibility Let_def)
next
  case out: False
  show ?thesis
  proof (cases "distance_miles s \<le> m")
    case False
    with out acc show ?thesis
      by (auto simp: is_accessible_feasibility Let_def split: if_splits)
  next
    case True
    from out acc
    have fb: "distance_miles s \<le> 2 \<or> (distance_miles s \<le> 8 \<and> has_public_transit l)"
      by (auto simp: is_accessible_feasibility Let_def split: if_splits)
    then have d8: "distance_miles s \<le> 8" by auto
    show ?thesis
    proof (cases "has_vehicle l")
      case True
      with \<open>distance_miles s \<le> m\<close> drive_short [OF d8] show ?thesis
        by (simp add: is_accessible_feasibility Let_def)
    next
      case nv: False
      show ?thesis
      proof (cases "has_public_transit l")
        case True
        show ?thesis
        proof (cases "distance_miles s \<le> 2")
          case True
          with nv \<open>has_public_transit l\<close> \<open>distance_miles s \<le> m\<close> transit_short [OF True]
          show ?thesis by (simp add: is_accessible_feasibility Let_def)
        next
          case False
          with nv True out acc \<open>distance_miles s \<le> m\<close> show ?thesis
            by (simp add: is_accessible_feasibility Let_def split: if_splits)
        qed
      next
        case False
        with fb have "distance_miles s \<le> 2" by simp
        with nv False out acc \<open>distance_miles s \<le> m\<close> show ?thesis
          by (simp add: is_accessible_feasibility Let_def split: if_splits)
      qed
    qed
  qed
qed

lemma feasibility_store: "store (calculate_travel_feasibility s l) = s"
  by (simp add: calculate_travel_feasibility_def Let_def split: prod.splits)

lemma accessible_store_set:
  "store ` set (accessible_stores (resource_locator uc)) =
     {s \<in> set (get_stores_for_zip (zip_code (logistics uc))).
        is_accessible (calculate_travel_feasibility s (logistics uc))}"
proof -
  have "store ` set (accessible_stores (resource_locator uc)) =
        store ` {f \<in> (\<lambda>s. calculate_travel_feasibility s (logistics uc)) `
                      set (get_stores_for_zip (zip_code (logistics uc))). is_accessible f}"
    by (simp add: resource_locator_def Let_def)
  also have "\<dots> = {s \<in> set (get_stores_for_zip (zip_code (logistics uc))).
        is_accessible (calculate_travel_feasibility s (logistics uc))}"
    by (force simp: feasibility_store)
  finally show ?thesis .
qed

text \<open>
  Claim C6. When the maximal travel distance of a profile is raised and nothing else
  changes, a store that \<open>calculate_travel_feasibility\<close> finds accessible stays accessible,
  and every store among the accessible stores of \<open>resource_locator\<close> stays among them.
\<close>

theorem reachability_monotone:
  assumes "max_travel_distance_miles (logistics uc) \<le> m"
  shows "(is_accessible (calculate_travel_feasibility s (logistics uc)) \<longrightarrow>
          is_accessible (calculate_travel_feasibility s
             ((logistics uc)\<lparr>max_travel_distance_miles := m\<rparr>))) \<and>
         store ` set (accessible_stores (resource_locator uc)) \<subseteq>
         store ` set (accessible_stores (resource_locator
             (uc\<lparr>logistics := (logistics uc)\<lparr>max_travel_distance_miles := m\<rparr>\<rparr>)))"
  using assms by (auto simp: accessible_store_set intro: feasibility_monotone)

text \<open>The sample user rides transit and travels up to 5 miles. The store 5.5 miles away
  is reached by the transit fallback; with 6 miles it is reached directly.\<close>

lemma sample_target_accessible:
  "distance_miles (get_stores_for_zip ''30312'' ! 8) = 5.5 \<and>
   is_accessible
     (calculate_travel_feasibility (get_stores_for_zip ''30312'' ! 8)
        (logistics create_sample_user))"
  by code_simp

theorem reachability_monotone_witness:
  "max_travel_distance_miles (logistics create_sample_user) \<le> 6 \<and>
   distance_miles (get_stores_for_zip ''30312'' ! 8) = 5.5 \<and>
   is_accessible
     (calculate_travel_feasibility (get_stores_for_zip ''30312'' ! 8)
        (logistics create_sample_user)) \<and>
   is_accessible
     (calculate_travel_feasibility (get_stores_for_zip ''30312'' ! 8)
        ((logistics create_sample_user)\<lparr>max_travel_distance_miles := 6\<rparr>))"
proof -
  have h: "max_travel_distance_miles (logistics create_sample_user) \<le> 6"
    by (simp add: create_sample_user_def)
  from reachability_monotone [OF h, of "get_stores_for_zip ''30312'' ! 8"]
    sample_target_accessible h
  show ?thesis by blast
qed

section \<open>The plan builder: totals\<close>









section \<open>The plan builder: one item per food\<close>

lemma addressed_iff:
  "addressed xs fname n \<longleftrightarrow>
     (\<exists>it\<in>set xs. FoodItem.name (food it) = fname \<and> n \<in> set (nutrients_addressed it))"
  by (simp add: addressed_def list_ex_iff)

lemma item_names_merge: "item_names (merge_nutrient fname n xs) = item_names xs"
  by (induction xs) (simp_all add: item_names_def)

lemma addressed_merge_keeps:
  "addressed xs g k \<Longrightarrow> addressed (merge_nutrient fname n xs) g k"
  by (induction xs) (auto simp: addressed_iff)

lemma addressed_merge_adds:
  "fname \<in> set (item_names xs) \<Longrightarrow> addressed (merge_nutrient fname n xs) fname n"
  by (induction xs) (auto simp: addressed_iff item_names_def)

lemma addressed_append: "addressed xs g k \<Longrightarrow> addressed (xs @ ys) g k"
  by (auto simp: addressed_iff)

lemma add_selected_distinct:
  "distinct (item_names (st_items st)) \<Longrightarrow>
   distinct (item_names (st_items (add_selected fmt2 uc rm st need f)))"
  by (auto simp: add_selected_def Let_def item_names_merge list_ex_iff)
     (auto simp: item_names_def)

lemma add_selected_keeps:
  "addressed (st_items st) g k \<Longrightarrow> addressed (st_items (add_selected fmt2 uc rm st need f)) g k"
  by (simp add: add_selected_def Let_def addressed_merge_keeps addressed_append)

lemma add_selected_adds:
  "addressed (st_items (add_selected fmt2 uc rm st need f)) (FoodItem.name f) (nutrient need)"
proof (cases "list_ex (\<lambda>existing. FoodItem.name f = FoodItem.name (food existing)) (st_items st)")
  case True
  then have "FoodItem.name f \<in> set (item_names (st_items st))"
    by (auto simp: list_ex_iff item_names_def)
  from addressed_merge_adds [OF this] True show ?thesis
    by (simp add: add_selected_def Let_def)
next
  case False
  then show ?thesis
    by (simp add: add_selected_def Let_def addressed_iff)
qed

lemma phase2_step_distinct:
  "distinct (item_names (st_items st)) \<Longrightarrow>
   distinct (item_names (st_items (phase2_step fmt2 uc rm st need)))"
  by (simp add: phase2_step_def add_selected_distinct split: sum.splits)

lemma phase2_step_keeps:
  "addressed (st_items st) g k \<Longrightarrow> addressed (st_items (phase2_step fmt2 uc rm st need)) g k"
  by (simp add: phase2_step_def add_selected_keeps split: sum.splits)

lemma phase2_distinct:
  "distinct (item_names (st_items st)) \<Longrightarrow>
   distinct (item_names (st_items (foldl (phase2_step fmt2 uc rm) st ns)))"
  by (induction ns arbitrary: st) (simp_all add: phase2_step_distinct)

lemma phase2_keeps:
  "addressed (st_items st) g k \<Longrightarrow>
   addressed (st_items (foldl (phase2_step fmt2 uc rm) st ns)) g k"
  by (induction ns arbitrary: st) (simp_all add: phase2_step_keeps)

text \<open>A need that phase 2 settles with a food is listed by the item of that food, from
  its own loop pass on.\<close>

lemma phase2_trace_addressed:
  "(need, Inr f) \<in> set (phase2_trace fmt2 uc rm st ns) \<Longrightarrow>
   addressed (st_items (foldl (phase2_step fmt2 uc rm) st ns)) (FoodItem.name f) (nutrient need)"
proof (induction ns arbitrary: st)
  case Nil
  then show ?case by simp
next
  case (Cons a ns)
  from Cons.prems consider
    (here) "need = a" "resolve_need uc (st_remaining st) a = Inr f"
  | (later) "(need, Inr f) \<in> set (phase2_trace fmt2 uc rm (phase2_step fmt2 uc rm st a) ns)"
    by auto
  then show ?case
  proof cases
    case here
    then have "phase2_step fmt2 uc rm st a = add_selected fmt2 uc rm st a f"
      by (simp add: phase2_step_def)
    then have "addressed (st_items (phase2_step fmt2 uc rm st a)) (FoodItem.name f)
                 (nutrient need)"
      using add_selected_adds [of fmt2 uc rm st a f] here by simp
    from phase2_keeps [OF this] show ?thesis by simp
  next
    case later
    from Cons.IH [OF this] show ?thesis by simp
  qed
qed

lemma add_staples_props:
  "distinct (item_names (st_items st)) \<Longrightarrow>
   distinct (item_names (st_items (add_staples st ks))) \<and>
   (addressed (st_items st) g k \<longrightarrow> addressed (st_items (add_staples st ks)) g k)"
proof (induction st ks rule: add_staples.induct)
  case (1 st)
  then show ?case by simp
next
  case (2 st key rest)
  show ?case
  proof (cases "st_remaining st \<le> 2")
    case True
    with 2 show ?thesis by simp
  next
    case False
    show ?thesis
    proof (cases "map_of FOOD_DATABASE key")
      case None
      with False 2 show ?thesis by simp
    next
      case (Some staple)
      show ?thesis
      proof (cases "\<not> list_ex (\<lambda>item. FoodItem.name staple = FoodItem.name (food item))
                        (st_items st)
                    \<and> price_estimate staple \<le> st_remaining st")
        case True
        let ?st' = "st\<lparr>st_items := st_items st @
                       [\<lparr>food = staple, quantity = 1, priority = OPTIONAL,
                         reason = ''Budget-friendly staple for general nutrition'',
                         suggested_store = None,
                         estimated_cost = price_estimate staple,
                         nutrients_addressed = []\<rparr>],
                     st_remaining := st_remaining st - price_estimate staple,
                     st_reasoning := st_reasoning st @
                       [''Added staple: '' @ FoodItem.name staple]\<rparr>"
        have d: "distinct (item_names (st_items ?st'))"
          using "2.prems" True by (auto simp: item_names_def list_ex_iff)
        have k: "addressed (st_items st) g k \<longrightarrow> addressed (st_items ?st') g k"
          by (simp add: addressed_append)
        from "2.IH"(2) [OF False Some True d] k False Some True show ?thesis by simp
      next
        case F: False
        from "2.IH"(3) [OF False Some F "2.prems"] False Some F show ?thesis by auto
      qed
    qed
  qed
qed

lemma final_items_distinct: "distinct (item_names (st_items (final_state fmt fmt2 uc np rm)))"
  unfolding final_state_def
  by (rule add_staples_props [THEN conjunct1], rule phase2_distinct)
     (simp add: initial_state_def item_names_def)

lemma final_items_addressed:
  assumes "(need, Inr f) \<in> set (resolutions fmt fmt2 uc np rm)"
  shows "addressed (st_items (final_state fmt fmt2 uc np rm)) (FoodItem.name f) (nutrient need)"
proof -
  have d: "distinct (item_names (st_items (foldl (phase2_step fmt2 uc rm)
             (initial_state fmt uc np rm) (get_top_priorities np 8))))"
    by (rule phase2_distinct) (simp add: initial_state_def item_names_def)
  from assms have "addressed (st_items (foldl (phase2_step fmt2 uc rm)
             (initial_state fmt uc np rm) (get_top_priorities np 8)))
             (FoodItem.name f) (nutrient need)"
    unfolding resolutions_def by (rule phase2_trace_addressed)
  with add_staples_props [OF d, of staples] show ?thesis
    by (simp add: final_state_def)
qed

lemma items_generate:
  "items (generate_shopping_list fmt fmt2 uc np rm) =
     sort_key (\<lambda>x. priority_value (ShoppingListItem.priority x))
       (st_items (final_state fmt fmt2 uc np rm))"
  by (simp add: generate_shopping_list_def Let_def)

lemma distinct_names_filter:
  assumes "distinct (item_names xs)" and "it \<in> set xs"
  shows "filter (\<lambda>x. FoodItem.name (food x) = FoodItem.name (food it)) xs = [it]"
  using assms
proof (induction xs)
  case Nil
  then show ?case by simp
next
  case (Cons a xs)
  show ?case
  proof (cases "a = it")
    case True
    with Cons.prems
    have "FoodItem.name (food it) \<notin> (\<lambda>x. FoodItem.name (food x)) ` set xs"
      by (simp add: item_names_def)
    then have "\<forall>x\<in>set xs. FoodItem.name (food x) \<noteq> FoodItem.name (food it)"
      by (metis imageI)
    then have "filter (\<lambda>x. FoodItem.name (food x) = FoodItem.name (food it)) xs = []"
      by (simp add: filter_empty_conv)
    with True show ?thesis by simp
  next
    case False
    with Cons.prems have "it \<in> set xs" and "FoodItem.name (food a) \<noteq> FoodItem.name (food it)"
      and "distinct (item_names xs)"
      by (auto simp: item_names_def)
    with Cons.IH show ?thesis by simp
  qed
qed

text \<open>
  Claim C5. When phase 2 settles two of the top needs with the same food, the shopping
  list has exactly one item of that food, and the nutrient names of both needs are among
  the nutrients the item addresses.
\<close>

theorem shared_food_one_item_both_nutrients:
  assumes r1: "(need1, Inr f1) \<in> set (resolutions fmt fmt2 uc np rm)"
    and r2: "(need2, Inr f2) \<in> set (resolutions fmt fmt2 uc np rm)"
    and same: "FoodItem.name f1 = FoodItem.name f2"
  shows "\<exists>it. filter (\<lambda>x. FoodItem.name (food x) = FoodItem.name f1)
                 (items (generate_shopping_list fmt fmt2 uc np rm)) = [it] \<and>
              nutrient need1 \<in> set (nutrients_addressed it) \<and>
              nutrient need2 \<in> set (nutrients_addressed it)"
proof -
  let ?xs = "items (generate_shopping_list fmt fmt2 uc np rm)"
  have s: "set ?xs = set (st_items (final_state fmt fmt2 uc np rm))"
    by (simp add: items_generate)
  have "mset (item_names ?xs) = mset (item_names (st_items (final_state fmt fmt2 uc np rm)))"
    by (simp add: items_generate item_names_def)
  then have d: "distinct (item_names ?xs)"
    using final_items_distinct [of fmt fmt2 uc np rm] by (metis mset_eq_imp_distinct_iff)
  from final_items_addressed [OF r1] s obtain it1 where
    it1: "it1 \<in> set ?xs" "FoodItem.name (food it1) = FoodItem.name f1"
         "nutrient need1 \<in> set (nutrients_addressed it1)"
    by (auto simp: addressed_iff)
  from final_items_addressed [OF r2] s same obtain it2 where
    it2: "it2 \<in> set ?xs" "FoodItem.name (food it2) = FoodItem.name f1"
         "nutrient need2 \<in> set (nutrients_addressed it2)"
    by (auto simp: addressed_iff)
  from distinct_names_filter [OF d it1(1)] it1(2)
  have f1: "filter (\<lambda>x. FoodItem.name (food x) = FoodItem.name f1) ?xs = [it1]" by simp
  from distinct_names_filter [OF d it2(1)] it2(2)
  have f2: "filter (\<lambda>x. FoodItem.name (food x) = FoodItem.name f1) ?xs = [it2]" by simp
  from f1 f2 have "it1 = it2" by simp
  with f1 it1 it2 show ?thesis by blast
qed

text \<open>A B12 need and a vitamin D need: canned sardines are the cheapest food for both.\<close>

lemma sardines_resolutions:
  "resolutions no_fmt no_fmt (plain_user 120) np_b12_d rm_empty =
     [(need_b12, Inr sardines_canned), (need_vitamin_d, Inr sardines_canned)]"
  by code_simp

theorem shared_food_one_item_both_nutrients_witness:
  "(need_b12, Inr sardines_canned) \<in>
      set (resolutions no_fmt no_fmt (plain_user 120) np_b12_d rm_empty) \<and>
   (need_vitamin_d, Inr sardines_canned) \<in>
      set (resolutions no_fmt no_fmt (plain_user 120) np_b12_d rm_empty) \<and>
   nutrient need_b12 = ''Vitamin B12'' \<and> nutrient need_vitamin_d = ''Vitamin D'' \<and>
   (\<exists>it. filter (\<lambda>x. FoodItem.name (food x) = FoodItem.name sardines_canned)
            (items (generate_shopping_list no_fmt no_fmt (plain_user 120) np_b12_d rm_empty)) =
            [it] \<and>
         ''Vitamin B12'' \<in> set (nutrients_addressed it) \<and>
         ''Vitamin D'' \<in> set (nutrients_addressed it))"
proof -
  have r1: "(need_b12, Inr sardines_canned) \<in>
      set (resolutions no_fmt no_fmt (plain_user 120) np_b12_d rm_empty)"
    by (simp add: sardines_resolutions)
  have r2: "(need_vitamin_d, Inr sardines_canned) \<in>
      set (resolutions no_fmt no_fmt (plain_user 120) np_b12_d rm_empty)"
    by (simp add: sardines_resolutions)
  have n: "nutrient need_b12 = ''Vitamin B12''" "nutrient need_vitamin_d = ''Vitamin D''"
    by (simp_all add: need_b12_def need_vitamin_d_def)
  from shared_food_one_item_both_nutrients [OF r1 r2 refl] r1 r2 n
  show ?thesis by simp
qed

section \<open>The plan builder: pantry staples\<close>

lemma str_title_pantry_foods:
  "str_title ''bread'' = ''Bread''"
  "str_title ''canned goods'' = ''Canned Goods''"
  "str_title ''produce'' = ''Produce''"
  by code_simp+

lemma pantry_items_generate:
  "pantry_items (generate_shopping_list fmt fmt2 uc np rm) =
     (case food_pantries rm of
        [] \<Rightarrow> []
      | pantry # _ \<Rightarrow>
          if low_budget (budget_tier (financials uc)) then pantry_items_for (store pantry)
          else [])"
  by (simp add: generate_shopping_list_def Let_def split: list.splits)

lemma item_names_pantry_items_for:
  "item_names (pantry_items_for s) =
     map (\<lambda>pf. ''Pantry: '' @ str_title pf)
       (filter (\<lambda>pf. pf \<in> set (specialty_items s) \<or> ''produce'' \<in> set (specialty_items s))
          pantry_foods)"
  by (simp add: item_names_def pantry_items_for_def pantry_item_def mk_food_def comp_def)

lemma pantry_items_for_free:
  "it \<in> set (pantry_items_for s) \<Longrightarrow>
     estimated_cost it = 0 \<and> suggested_store it = Some (Store.name s)"
  by (auto simp: pantry_items_for_def pantry_item_def)

lemma plain_user_40_tier: "budget_tier (financials (plain_user 40)) = ''very_low''"
  by (simp add: budget_tier_def plain_user_def)

lemma rm_produce_pantries:
  "food_pantries rm_produce =
     [calculate_travel_feasibility produce_pantry (logistics (plain_user 40))]"
  by (simp add: rm_produce_def Let_def)

text \<open>
  Claim C7, as stated, fails. The claim adds the placeholder of a staple exactly when the
  staple is among the specialty items of the first pantry. For a budget of 40 dollars
  and a pantry whose only specialty item is \<open>produce\<close>, the placeholders of bread and of
  canned goods are added as well.
\<close>

theorem pantry_staples_counterexample:
  "budget_tier (financials (plain_user 40)) = ''very_low'' \<and>
   food_pantries rm_produce \<noteq> [] \<and>
   specialty_items (store (hd (food_pantries rm_produce))) = [''produce''] \<and>
   item_names (pantry_items
     (generate_shopping_list no_fmt no_fmt (plain_user 40) np_empty rm_produce)) =
     [''Pantry: Bread'', ''Pantry: Canned Goods'', ''Pantry: Produce'']"
proof -
  have s: "store (hd (food_pantries rm_produce)) = produce_pantry"
    by (simp add: rm_produce_pantries feasibility_store)
  have n: "item_names (pantry_items_for produce_pantry) =
     [''Pantry: Bread'', ''Pantry: Canned Goods'', ''Pantry: Produce'']"
    by (simp add: item_names_pantry_items_for pantry_foods_def produce_pantry_def
        str_title_pantry_foods)
  have i: "specialty_items produce_pantry = [''produce'']"
    by (simp add: produce_pantry_def)
  show ?thesis
    using s n i
    by (simp add: pantry_items_generate rm_produce_pantries plain_user_40_tier low_budget_def
        feasibility_store)
qed

text \<open>
  Claim C7, amended. For a profile of budget tier very-low or low and a resource map with
  at least one food pantry, the placeholder of a staple among \<open>bread\<close>, \<open>canned goods\<close>
  and \<open>produce\<close> is among the pantry items if and only if the staple is among the
  specialty items of the first pantry or \<open>produce\<close> is among them; every pantry item
  costs nothing and is assigned to that pantry.
\<close>

theorem pantry_staples_added:
  assumes tier: "budget_tier (financials uc) \<in> {''very_low'', ''low''}"
    and pantry: "food_pantries rm = pantry # rest"
    and pf: "pf \<in> set pantry_foods"
  shows "((''Pantry: '' @ str_title pf) \<in>
            set (item_names (pantry_items (generate_shopping_list fmt fmt2 uc np rm))) \<longleftrightarrow>
          pf \<in> set (specialty_items (store pantry)) \<or>
          ''produce'' \<in> set (specialty_items (store pantry))) \<and>
         (\<forall>it\<in>set (pantry_items (generate_shopping_list fmt fmt2 uc np rm)).
            estimated_cost it = 0 \<and> suggested_store it = Some (Store.name (store pantry)))"
proof -
  from tier have low: "low_budget (budget_tier (financials uc))"
    by (auto simp: low_budget_def)
  have eq: "pantry_items (generate_shopping_list fmt fmt2 uc np rm) =
            pantry_items_for (store pantry)"
    by (simp add: pantry_items_generate pantry low)
  have inj: "\<And>a b. a \<in> set pantry_foods \<Longrightarrow> b \<in> set pantry_foods \<Longrightarrow>
               str_title a = str_title b \<Longrightarrow> a = b"
    by (auto simp: pantry_foods_def str_title_pantry_foods)
  have "(''Pantry: '' @ str_title pf) \<in> set (item_names (pantry_items_for (store pantry))) \<longleftrightarrow>
        pf \<in> set (specialty_items (store pantry)) \<or>
        ''produce'' \<in> set (specialty_items (store pantry))"
    using pf inj [OF pf] by (auto simp: item_names_pantry_items_for)
  then show ?thesis
    using pantry_items_for_free [of _ "store pantry"] by (auto simp: eq)
qed

theorem pantry_staples_added_witness:
  "budget_tier (financials (plain_user 40)) \<in> {''very_low'', ''low''} \<and>
   food_pantries rm_produce =
     [calculate_travel_feasibility produce_pantry (logistics (plain_user 40))] \<and>
   ''canned goods'' \<in> set pantry_foods \<and>
   ''canned goods'' \<notin> set (specialty_items produce_pantry) \<and>
   ''produce'' \<in> set (specialty_items produce_pantry) \<and>
   ''Pantry: Canned Goods'' \<in>
      set (item_names (pantry_items
        (generate_shopping_list no_fmt no_fmt (plain_user 40) np_empty rm_produce)))"
proof -
  have t: "budget_tier (financials (plain_user 40)) \<in> {''very_low'', ''low''}"
    by (simp add: plain_user_40_tier)
  have f: "''canned goods'' \<in> set pantry_foods"
    by (simp add: pantry_foods_def)
  have i: "specialty_items produce_pantry = [''produce'']"
    by (simp add: produce_pantry_def)
  from pantry_staples_added [OF t rm_produce_pantries f, of no_fmt no_fmt np_empty] t f
  show ?thesis by (simp add: rm_produce_pantries feasibility_store i str_title_pantry_foods)
qed

section \<open>The plan builder: allergies\<close>

text \<open>Without the budget substitution the selected food is one of the safe options.\<close>

lemma select_food_mem:
  "select_food tier snap remaining opts = Some f \<Longrightarrow> f \<in> budget_substitute tier ` set opts"
  by (induction opts) (auto simp: Let_def split: if_splits)

lemma budget_substitute_id: "\<not> low_budget tier \<Longrightarrow> budget_substitute tier f = f"
  by (simp add: budget_substitute_def Let_def split: list.splits)

lemma resolve_need_safe_without_substitution:
  assumes "\<not> low_budget (budget_tier (financials uc))"
    and "resolve_need uc remaining need = Inr f"
  shows "is_safe (map str_lower (known_allergies (medical uc))) f"
proof -
  let ?safe = "filter (is_safe (map str_lower (known_allergies (medical uc))))
                 (get_foods_for_nutrient (nutrient need))"
  have "f \<in> set ?safe"
  proof (cases ?safe)
    case Nil
    with assms(2) show ?thesis
      by (simp add: resolve_need_def Let_def split: if_splits)
  next
    case (Cons c rest)
    show ?thesis
    proof (cases "select_food (budget_tier (financials uc)) (snap_status (financials uc))
                    remaining ?safe")
      case None
      with Cons assms(2) have "f = c"
        by (simp add: resolve_need_def Let_def split: if_splits)
      with Cons show ?thesis by simp
    next
      case (Some g)
      with Cons assms(2) have "f = g"
        by (simp add: resolve_need_def Let_def split: if_splits)
      with select_food_mem [OF Some] budget_substitute_id [OF assms(1)] show ?thesis
        by auto
    qed
  qed
  then show ?thesis by simp
qed

text \<open>A need whose foods all conflict with an allergy is skipped, and the items stay as
  they are.\<close>

lemma resolve_need_all_unsafe:
  assumes "0 < remaining"
    and "get_foods_for_nutrient (nutrient need) \<noteq> []"
    and "filter (is_safe (map str_lower (known_allergies (medical uc))))
           (get_foods_for_nutrient (nutrient need)) = []"
  shows "resolve_need uc remaining need =
           Inl (''All foods for '' @ nutrient need @ '' conflict with allergies'')"
  using assms by (simp add: resolve_need_def Let_def)

lemma phase2_step_skip:
  "resolve_need uc (st_remaining st) need = Inl line \<Longrightarrow>
     st_items (phase2_step fmt2 uc rm st need) = st_items st"
  by (simp add: phase2_step_def)

text \<open>
  Claim C3. The food selected for a need, also a budget substitute, should never have a
  name that contains an allergen. Under a low budget the substitute is not checked: for a
  user with a spinach allergy, cancer in the family history and 60 dollars a week, the
  Antioxidants need goes to kale, kale is replaced by its budget alternative, and the
  list holds frozen spinach for that need.
\<close>

theorem substitute_ignores_allergy:
  "known_allergies (medical uc_spinach) = [''spinach''] \<and>
   map need_summary (needs (analyze_lab_data fmt uc_spinach)) =
     [(''Antioxidants'', 4,
       ''Family history considerations - antioxidants support cellular health'')] \<and>
   map (\<lambda>it. (FoodItem.name (food it), nutrients_addressed it))
     (items (generate_shopping_list fmt fmt2 uc_spinach (analyze_lab_data fmt uc_spinach)
        rm_empty)) =
     [(''Spinach (frozen bag)'', [''Antioxidants'']), (''Oats (rolled)'', []),
      (''Brown Rice'', []), (''Black Beans (canned)'', []), (''Bananas'', []),
      (''Peanut Butter'', [])] \<and>
   str_contains ''spinach'' (str_lower ''Spinach (frozen bag)'')"
  by code_simp

end
